theory Spec2Isabelle
  imports Main "HOL-Library.Word" "HOL-Library.Multiset" "HOL-Library.Char_ord" "HOL-Library.List_Lexorder"
begin

unbundle bit_operations_syntax

section \<open>Go values shared by the embedding\<close>

text \<open>
  A Go \<^verbatim>\<open>[]byte\<close> is a list of 8-bit words. A Go \<^verbatim>\<open>error\<close> value is
  modelled by the message its \<^verbatim>\<open>Error()\<close> method prints; a call that returns
  \<^verbatim>\<open>(value, error)\<close> is a sum with \<open>Inl\<close> for the error. Go strings are byte
  strings, compared bytewise, which is the order the imported list and character orders
  give to \<^typ>\<open>string\<close>.
\<close>

type_synonym byte = "8 word"
type_synonym bytes = "byte list"
type_synonym error = string

text \<open>
  A function of the source either panics or returns. \<open>Panic None\<close> is
  \<^verbatim>\<open>panic(nil)\<close>; \<open>Panic (Some m)\<close> is a panic whose value prints as \<open>m\<close>.
\<close>

datatype 'a go = Panic "string option" | Ret 'a

text \<open>The verbs of \<^verbatim>\<open>fmt\<close> the source uses: \<^verbatim>\<open>%d\<close> on an int and \<^verbatim>\<open>%v\<close> on a
  \<^verbatim>\<open>[]string\<close> (the elements separated by one space, in square brackets).\<close>

definition digit_char :: "nat \<Rightarrow> char" where
  "digit_char d = ''0123456789'' ! (d mod 10)"

fun fmt_nat :: "nat \<Rightarrow> string" where
  "fmt_nat n = (if n < 10 then [digit_char n] else fmt_nat (n div 10) @ [digit_char (n mod 10)])"

definition fmt_d :: "int \<Rightarrow> string" where
  "fmt_d i = (if i < 0 then CHR ''-'' # fmt_nat (nat (- i)) else fmt_nat (nat i))"

fun join_sp :: "string list \<Rightarrow> string" where
  "join_sp [] = []"
| "join_sp [s] = s"
| "join_sp (s # t # ss) = s @ '' '' @ join_sp (t # ss)"

definition fmt_v_strings :: "string list \<Rightarrow> string" where
  "fmt_v_strings ss = ''['' @ join_sp ss @ '']''"

section \<open>Key-generation options: \<^verbatim>\<open>getBCCSPKeyOpts\<close>\<close>

text \<open>
  \<^verbatim>\<open>csr.KeyRequest\<close> is read through \<^verbatim>\<open>Algo()\<close> and \<^verbatim>\<open>Size()\<close> only; the
  request pointer may be nil. The result is one of the option structs of
  \<^verbatim>\<open>bccsp\<close>, each carrying its \<^verbatim>\<open>Temporary\<close> flag.
  The function is pure but for one debug line
  written to the log, which is left out.
\<close>

record KeyRequest =
  Algo :: string
  Size :: int

datatype KeyGenOpts =
    ECDSAKeyGenOpts bool
  | RSA2048KeyGenOpts bool
  | RSA3072KeyGenOpts bool
  | RSA4096KeyGenOpts bool
  | ECDSAP256KeyGenOpts bool
  | ECDSAP384KeyGenOpts bool

definition getBCCSPKeyOpts :: "KeyRequest option \<Rightarrow> bool \<Rightarrow> error + KeyGenOpts" where
  "getBCCSPKeyOpts kr ephemeral =
     (case kr of
        None \<Rightarrow> Inr (ECDSAKeyGenOpts ephemeral)
      | Some r \<Rightarrow>
          if Algo r = ''rsa'' then
            (if Size r = 2048 then Inr (RSA2048KeyGenOpts ephemeral)
             else if Size r = 3072 then Inr (RSA3072KeyGenOpts ephemeral)
             else if Size r = 4096 then Inr (RSA4096KeyGenOpts ephemeral)
             else Inl (''Invalid RSA key size: '' @ fmt_d (Size r)))
          else if Algo r = ''ecdsa'' then
            (if Size r = 256 then Inr (ECDSAP256KeyGenOpts ephemeral)
             else if Size r = 384 then Inr (ECDSAP384KeyGenOpts ephemeral)
             else if Size r = 521 then Inl ''Unsupported ECDSA key size: 521''
             else Inl (''Invalid ECDSA key size: '' @ fmt_d (Size r)))
          else Inl (''Invalid algorithm: '' @ Algo r))"

section \<open>The external collaborators\<close>

text \<open>
  The certificate toolkit, the key store, the hash functions and the file system are not
  code of this repository; the embedding takes them as parameters. A call that may read
  or change the world outside the program (files, the key store) takes the world \<open>'s\<close>
  and returns it. Each such call, each hashing call and each line written to the log is
  also appended to a trace, so that a theorem can say what a function did and did not
  attempt. A collaborator that returns a value and an error returns exactly one of them,
  so its result is a sum; a key store handle may be nil, which is \<open>None\<close>.
\<close>

record Extension =
  Id_String :: string
  Value :: bytes

record x509_Certificate =
  Raw :: bytes
  Extensions :: "Extension list"

record pem_Block =
  Type :: string
  Bytes :: bytes

text \<open>A \<^verbatim>\<open>bccsp.Key\<close> handed out by the key store, by what its methods report.\<close>

record Key =
  SKI :: bytes
  Private :: bool

text \<open>What \<^verbatim>\<open>utils.PEMtoPrivateKey\<close> may return, by the dynamic type the source
  switches on; the key material itself is opaque.\<close>

datatype pem_key = ECDSA_PrivateKey bytes | RSA_PrivateKey bytes | Other_key

record 'g tls_Certificate =
  Certificate :: "bytes list"
  PrivateKey :: "'g option"

datatype import_raw = RawCertificate x509_Certificate | RawBytes bytes

datatype KeyImportOpts =
    X509PublicKeyImportOpts bool
  | ECDSAPrivateKeyImportOpts bool
  | CPABEParamsImportOpts bool

record 's BCCSP =
  KeyImport :: "import_raw \<Rightarrow> KeyImportOpts \<Rightarrow> 's \<Rightarrow> (error + Key) \<times> 's"
  GetKey :: "bytes \<Rightarrow> 's \<Rightarrow> (error + Key) \<times> 's"

text \<open>
  \<open>'g\<close> is a \<^verbatim>\<open>crypto.Signer\<close>, \<open>'p\<close> a signing policy, \<open>'l\<close> the signer that
  \<^verbatim>\<open>local.NewSigner\<close> builds. \<open>json_Unmarshal\<close> decodes the attribute extension into
  \<^verbatim>\<open>attrmgr.Attributes\<close> and gives its \<^verbatim>\<open>Attrs\<close> map as the list of its entries in
  the order a \<^verbatim>\<open>range\<close> over the map visits them, which Go leaves unspecified; the
  names of a map are distinct. \<open>abe_Hash\<close> gives the integer \<^verbatim>\<open>abeutils.Hash\<close> returns.
  \<open>AttrOIDString\<close> is the attribute manager's constant.
\<close>

record ('s, 'g, 'p, 'l) env =
  ReadFile :: "string \<Rightarrow> 's \<Rightarrow> (error + bytes) \<times> 's"
  ParseCertificatePEM :: "bytes \<Rightarrow> error + x509_Certificate"
  x509_ParseCertificate :: "bytes \<Rightarrow> error + x509_Certificate"
  pem_Decode :: "bytes \<Rightarrow> pem_Block option \<times> bytes"
  json_Unmarshal :: "bytes \<Rightarrow> error + (string \<times> string) list"
  AttrOIDString :: string
  abe_Hash :: "string \<Rightarrow> int"
  sha256 :: "bytes \<Rightarrow> bytes"
  PEMtoPrivateKey :: "bytes \<Rightarrow> error + pem_key"
  PrivateKeyToDER :: "bytes \<Rightarrow> error + bytes"
  cspsigner_New :: "'s BCCSP option \<Rightarrow> Key \<Rightarrow> error + 'g"
  DefaultSigAlgo :: "'g \<Rightarrow> nat"
  local_NewSigner :: "'g \<Rightarrow> x509_Certificate option \<Rightarrow> nat \<Rightarrow> 'p \<Rightarrow> error + 'l"
  tls_LoadX509KeyPair :: "string \<Rightarrow> string \<Rightarrow> 's \<Rightarrow> (error + 'g tls_Certificate) \<times> 's"

datatype event =
    Log string
  | Call_ReadFile string
  | Call_KeyImport import_raw KeyImportOpts
  | Call_GetKey bytes
  | Call_Hash string
  | Call_sha256 bytes
  | Call_cspsigner_New Key
  | Call_local_NewSigner
  | Call_tls_LoadX509KeyPair string string

type_synonym 's st = "'s \<times> event list"

definition emit :: "event \<Rightarrow> 's st \<Rightarrow> 's st" where
  "emit e \<sigma> = (fst \<sigma>, snd \<sigma> @ [e])"

definition call :: "event \<Rightarrow> ('s \<Rightarrow> 'a \<times> 's) \<Rightarrow> 's st \<Rightarrow> 'a \<times> 's st" where
  "call e f \<sigma> = (case f (fst \<sigma>) of (r, w) \<Rightarrow> (r, (w, snd \<sigma> @ [e])))"

definition nil_dereference :: "string option" where
  "nil_dereference = Some ''runtime error: invalid memory address or nil pointer dereference''"

section \<open>Attribute-key lookup: \<^verbatim>\<open>BccspBackedCPABEPrivateKey\<close> and \<^verbatim>\<open>BccspBackedCPABEParams\<close>\<close>

definition ParamsOIDString :: string where
  "ParamsOIDString = ''1.2.3.4.5.6.7.8.9''"

type_synonym int32 = "32 word"

text \<open>The conversion \<^verbatim>\<open>int32(x)\<close> keeps the low 32 bits of the integer; the later
  \<^verbatim>\<open>uint32(attr)\<close> keeps all 32 bits.\<close>

definition int32_of :: "int \<Rightarrow> int32" where
  "int32_of i = word_of_int i"

text \<open>Indexing a Go map gives the zero value, here the empty string, for a missing name.\<close>

definition map_index :: "(string \<times> string) list \<Rightarrow> string \<Rightarrow> string" where
  "map_index attrs key = (case map_of attrs key of Some v \<Rightarrow> v | None \<Rightarrow> [])"

text \<open>The loop over the sorted names: format \<^verbatim>\<open>"%s.%s"\<close>, hash, append.\<close>

fun append_attribute_ids ::
  "('s, 'g, 'p, 'l) env \<Rightarrow> (string \<times> string) list \<Rightarrow> string list \<Rightarrow>
     int32 list \<times> 's st \<Rightarrow> int32 list \<times> 's st" where
  "append_attribute_ids E attrs [] acc = acc"
| "append_attribute_ids E attrs (key # keys) (attributeID, \<sigma>) =
     (let attrString = key @ ''.'' @ map_index attrs key
      in append_attribute_ids E attrs keys
           (attributeID @ [int32_of (abe_Hash E attrString)], emit (Call_Hash attrString) \<sigma>))"

text \<open>
  The loop over the certificate's extensions, with the two variables it assigns. The value
  of a parsed extension is never the nil slice, so \<open>paramsBytes\<close> is nil (\<open>None\<close>)
  exactly until a Params extension has been seen. \<^verbatim>\<open>sort.Sort\<close> on a string slice is
  the ascending sort.
\<close>

fun scan_extensions ::
  "('s, 'g, 'p, 'l) env \<Rightarrow> Extension list \<Rightarrow> (bytes option \<times> int32 list) \<times> 's st \<Rightarrow>
     (error + bytes option \<times> int32 list) \<times> 's st" where
  "scan_extensions E [] (acc, \<sigma>) = (Inr acc, \<sigma>)"
| "scan_extensions E (extensions # rest) ((paramsBytes, attributeID), \<sigma>) =
     (let paramsBytes' =
            (if Id_String extensions = ParamsOIDString then Some (Value extensions) else paramsBytes)
      in if Id_String extensions = AttrOIDString E then
           (case json_Unmarshal E (Value extensions) of
              Inl err \<Rightarrow> (Inl (''unmarshal Attributes error, '' @ err), \<sigma>)
            | Inr attrs \<Rightarrow>
                (let keys = sort (map fst attrs);
                     (attributeID', \<sigma>') = append_attribute_ids E attrs keys (attributeID, \<sigma>)
                 in scan_extensions E rest ((paramsBytes', attributeID'), \<sigma>')))
         else scan_extensions E rest ((paramsBytes', attributeID), \<sigma>))"

text \<open>\<^verbatim>\<open>binary.BigEndian.PutUint32\<close> assigns the first four bytes of the slice it is
  given, the most significant byte of the value first, and panics on a shorter slice.\<close>

definition PutUint32 :: "bytes \<Rightarrow> 32 word \<Rightarrow> bytes go" where
  "PutUint32 b v =
     (if length b < 4 then Panic (Some ''index out of range'')
      else Ret (ucast (drop_bit 24 v) # ucast (drop_bit 16 v) # ucast (drop_bit 8 v) # ucast v
                  # drop 4 b))"

text \<open>The marshalling loop: entry \<open>i\<close> is written through the slice
  \<^verbatim>\<open>attrBytes[i<<2:]\<close>, which shares its bytes with \<open>attrBytes\<close>; taking the
  slice panics when \<open>i<<2\<close> is beyond the length. Lengths and indices are natural
  numbers: a list that fits in memory is too short for the shifts to overflow.\<close>

fun put_attributes :: "nat \<Rightarrow> int32 list \<Rightarrow> bytes \<Rightarrow> bytes go" where
  "put_attributes i [] attrBytes = Ret attrBytes"
| "put_attributes i (attr # rest) attrBytes =
     (if length attrBytes < i * 4 then Panic (Some ''slice bounds out of range'')
      else case PutUint32 (drop (i * 4) attrBytes) attr of
             Panic p \<Rightarrow> Panic p
           | Ret written \<Rightarrow> put_attributes (Suc i) rest (take (i * 4) attrBytes @ written))"

definition marshal_attributeID :: "int32 list \<Rightarrow> bytes go" where
  "marshal_attributeID attributeID =
     put_attributes 0 attributeID (replicate (length attributeID * 4) 0)"

definition BccspBackedCPABEPrivateKey ::
  "('s, 'g, 'p, 'l) env \<Rightarrow> string \<Rightarrow> 's BCCSP option \<Rightarrow> 's st \<Rightarrow> (error + Key option) go \<times> 's st" where
  "BccspBackedCPABEPrivateKey E certFile csp \<sigma> =
     (case call (Call_ReadFile certFile) (ReadFile E certFile) \<sigma> of
        (Inl err, \<sigma>1) \<Rightarrow> (Ret (Inl (''read file error, '' @ err)), \<sigma>1)
      | (Inr certBytes, \<sigma>1) \<Rightarrow>
          (case ParseCertificatePEM E certBytes of
             Inl err \<Rightarrow> (Ret (Inl (''parse certificate error, '' @ err)), \<sigma>1)
           | Inr parsedCert \<Rightarrow>
               (case scan_extensions E (Extensions parsedCert) ((None, []), \<sigma>1) of
                  (Inl err, \<sigma>2) \<Rightarrow> (Ret (Inl err), \<sigma>2)
                | (Inr (None, attributeID), \<sigma>2) \<Rightarrow>
                    (Ret (Inr None),
                     emit (Log (''The certificate in ['' @ certFile @ ''] not support cpabe'')) \<sigma>2)
                | (Inr (Some raw, attributeID), \<sigma>2) \<Rightarrow>
                    (case marshal_attributeID attributeID of
                       Panic p \<Rightarrow> (Panic p, \<sigma>2)
                     | Ret attrBytes \<Rightarrow>
                         (let ski = sha256 E (raw @ attrBytes);
                              \<sigma>3 = emit (Call_sha256 (raw @ attrBytes)) \<sigma>2
                          in case csp of
                               None \<Rightarrow> (Panic nil_dereference, \<sigma>3)
                             | Some c \<Rightarrow>
                                 (case call (Call_GetKey ski) (GetKey c ski) \<sigma>3 of
                                    (Inl err, \<sigma>4) \<Rightarrow> (Ret (Inl err), \<sigma>4)
                                  | (Inr key, \<sigma>4) \<Rightarrow> (Ret (Inr (Some key)), \<sigma>4)))))))"

fun scan_params :: "Extension list \<Rightarrow> bytes option \<Rightarrow> bytes option" where
  "scan_params [] paramsBytes = paramsBytes"
| "scan_params (extensions # rest) paramsBytes =
     scan_params rest
       (if Id_String extensions = ParamsOIDString then Some (Value extensions) else paramsBytes)"

definition BccspBackedCPABEParams ::
  "('s, 'g, 'p, 'l) env \<Rightarrow> string \<Rightarrow> 's BCCSP option \<Rightarrow> 's st \<Rightarrow> (error + Key option) go \<times> 's st" where
  "BccspBackedCPABEParams E certFile csp \<sigma> =
     (case call (Call_ReadFile certFile) (ReadFile E certFile) \<sigma> of
        (Inl err, \<sigma>1) \<Rightarrow> (Ret (Inl (''read file error, '' @ err)), \<sigma>1)
      | (Inr certBytes, \<sigma>1) \<Rightarrow>
          (case ParseCertificatePEM E certBytes of
             Inl err \<Rightarrow> (Ret (Inl (''parse certificate error, '' @ err)), \<sigma>1)
           | Inr parsedCert \<Rightarrow>
               (case scan_params (Extensions parsedCert) None of
                  None \<Rightarrow>
                    (Ret (Inr None),
                     emit (Log (''The certificate in ['' @ certFile @ ''] not support cpabe'')) \<sigma>1)
                | Some paramsBytes \<Rightarrow>
                    (case csp of
                       None \<Rightarrow> (Panic nil_dereference, \<sigma>1)
                     | Some c \<Rightarrow>
                         (case call (Call_KeyImport (RawBytes paramsBytes) (CPABEParamsImportOpts True))
                                 (KeyImport c (RawBytes paramsBytes) (CPABEParamsImportOpts True)) \<sigma>1 of
                            (Inl err, \<sigma>2) \<Rightarrow> (Ret (Inl (''import params error, '' @ err)), \<sigma>2)
                          | (Inr params, \<sigma>2) \<Rightarrow> (Ret (Inr (Some params)), \<sigma>2))))))"

section \<open>Signer resolution: \<^verbatim>\<open>GetSignerFromCert\<close>, \<^verbatim>\<open>ImportBCCSPKeyFromPEM\<close>, \<^verbatim>\<open>BccspBackedSigner\<close>\<close>

text \<open>\<^verbatim>\<open>hex.EncodeToString\<close>: two lower-case hexadecimal digits per byte.\<close>

definition hex_digit :: "nat \<Rightarrow> char" where
  "hex_digit d = ''0123456789abcdef'' ! (d mod 16)"

definition EncodeToString :: "bytes \<Rightarrow> string" where
  "EncodeToString bs = concat (map (\<lambda>b. [hex_digit (unat b div 16), hex_digit (unat b mod 16)]) bs)"

text \<open>
  \<^verbatim>\<open>errors.WithMessage\<close>, \<^verbatim>\<open>errors.Wrap\<close> and \<^verbatim>\<open>errors.Wrapf\<close> print the
  message, a colon and a space, then the error they wrap. \<open>squote\<close> puts a string
  between the single quotes that the format strings of the source write around
  \<^verbatim>\<open>%s\<close>.
\<close>

definition WithMessage :: "error \<Rightarrow> string \<Rightarrow> error" where
  "WithMessage err msg = msg @ '': '' @ err"

definition squote :: "string \<Rightarrow> string" where
  "squote s = [CHR 0x27] @ s @ [CHR 0x27]"

text \<open>
  Every return of \<^verbatim>\<open>GetSignerFromCert\<close> is either \<^verbatim>\<open>nil, nil, err\<close> or
  \<^verbatim>\<open>privateKey, signer, nil\<close>, so its result is a sum.
\<close>

definition GetSignerFromCert ::
  "('s, 'g, 'p, 'l) env \<Rightarrow> x509_Certificate \<Rightarrow> 's BCCSP option \<Rightarrow> 's st \<Rightarrow> (error + Key \<times> 'g) \<times> 's st" where
  "GetSignerFromCert E cert csp \<sigma> =
     (case csp of
        None \<Rightarrow> (Inl ''CSP was not initialized'', \<sigma>)
      | Some c \<Rightarrow>
          (case call (Call_KeyImport (RawCertificate cert) (X509PublicKeyImportOpts True))
                  (KeyImport c (RawCertificate cert) (X509PublicKeyImportOpts True)) \<sigma> of
             (Inl err, \<sigma>1) \<Rightarrow>
               (Inl (WithMessage err (''Failed to import certificate'' @ [CHR 0x27] @ ''s public key'')), \<sigma>1)
           | (Inr certPubK, \<sigma>1) \<Rightarrow>
               (let ski = SKI certPubK
                in case call (Call_GetKey ski) (GetKey c ski) \<sigma>1 of
                     (Inl err, \<sigma>2) \<Rightarrow>
                       (Inl (WithMessage err ''Could not find matching private key for SKI''), \<sigma>2)
                   | (Inr privateKey, \<sigma>2) \<Rightarrow>
                       if \<not> Private privateKey then
                         (Inl (''The private key associated with the certificate with SKI ''
                               @ squote (EncodeToString ski) @ '' was not found''), \<sigma>2)
                       else
                         (case cspsigner_New E csp privateKey of
                            Inl err \<Rightarrow>
                              (Inl (WithMessage err ''Failed to load ski from bccsp''),
                               emit (Call_cspsigner_New privateKey) \<sigma>2)
                          | Inr signer \<Rightarrow>
                              (Inr (privateKey, signer), emit (Call_cspsigner_New privateKey) \<sigma>2)))))"

text \<open>
  \<^verbatim>\<open>GetSignerFromCertFile\<close> returns the parsed certificate beside the error when only the
  signer lookup failed: \<open>Inl (err, parsedCa)\<close>, with \<open>parsedCa\<close> nil when the file could
  not be read or parsed.
\<close>

definition GetSignerFromCertFile ::
  "('s, 'g, 'p, 'l) env \<Rightarrow> string \<Rightarrow> 's BCCSP option \<Rightarrow> 's st \<Rightarrow>
     (error \<times> x509_Certificate option + Key \<times> 'g \<times> x509_Certificate) \<times> 's st" where
  "GetSignerFromCertFile E certFile csp \<sigma> =
     (case call (Call_ReadFile certFile) (ReadFile E certFile) \<sigma> of
        (Inl err, \<sigma>1) \<Rightarrow>
          (Inl (WithMessage err (''Could not read certFile '' @ squote certFile), None), \<sigma>1)
      | (Inr certBytes, \<sigma>1) \<Rightarrow>
          (case ParseCertificatePEM E certBytes of
             Inl err \<Rightarrow> (Inl (err, None), \<sigma>1)
           | Inr parsedCa \<Rightarrow>
               (case GetSignerFromCert E parsedCa csp \<sigma>1 of
                  (Inl err, \<sigma>2) \<Rightarrow> (Inl (err, Some parsedCa), \<sigma>2)
                | (Inr (key, cspSigner), \<sigma>2) \<Rightarrow> (Inr (key, cspSigner, parsedCa), \<sigma>2))))"

text \<open>Calling \<^verbatim>\<open>KeyImport\<close> on a nil key store is a nil dereference.\<close>

definition ImportBCCSPKeyFromPEM ::
  "('s, 'g, 'p, 'l) env \<Rightarrow> string \<Rightarrow> 's BCCSP option \<Rightarrow> bool \<Rightarrow> 's st \<Rightarrow> (error + Key) go \<times> 's st" where
  "ImportBCCSPKeyFromPEM E keyFile myCSP temporary \<sigma> =
     (case call (Call_ReadFile keyFile) (ReadFile E keyFile) \<sigma> of
        (Inl err, \<sigma>1) \<Rightarrow> (Ret (Inl err), \<sigma>1)
      | (Inr keyBuff, \<sigma>1) \<Rightarrow>
          (case PEMtoPrivateKey E keyBuff of
             Inl err \<Rightarrow> (Ret (Inl (WithMessage err (''Failed parsing private key from '' @ keyFile))), \<sigma>1)
           | Inr (ECDSA_PrivateKey key) \<Rightarrow>
               (case PrivateKeyToDER E key of
                  Inl err \<Rightarrow>
                    (Ret (Inl (WithMessage err
                            (''Failed to convert ECDSA private key for '' @ squote keyFile))), \<sigma>1)
                | Inr priv \<Rightarrow>
                    (case myCSP of
                       None \<Rightarrow> (Panic nil_dereference, \<sigma>1)
                     | Some c \<Rightarrow>
                         (case call (Call_KeyImport (RawBytes priv) (ECDSAPrivateKeyImportOpts temporary))
                                 (KeyImport c (RawBytes priv) (ECDSAPrivateKeyImportOpts temporary)) \<sigma>1 of
                            (Inl err, \<sigma>2) \<Rightarrow>
                              (Ret (Inl (WithMessage err
                                      (''Failed to import ECDSA private key for '' @ squote keyFile))), \<sigma>2)
                          | (Inr sk, \<sigma>2) \<Rightarrow> (Ret (Inr sk), \<sigma>2))))
           | Inr (RSA_PrivateKey key) \<Rightarrow>
               (Ret (Inl (''Failed to import RSA key from '' @ keyFile
                          @ ''; RSA private key import is not supported'')), \<sigma>1)
           | Inr Other_key \<Rightarrow>
               (Ret (Inl (''Failed to import key from '' @ keyFile @ '': invalid secret key type'')), \<sigma>1)))"

definition fallback_log :: string where
  "fallback_log = ''No key found in BCCSP keystore, attempting fallback''"

definition keyfile_error :: "string \<Rightarrow> error \<Rightarrow> error" where
  "keyfile_error keyFile err =
     WithMessage err (''Could not find the private key in BCCSP keystore nor in keyfile '' @ squote keyFile)"

text \<open>The last statements of \<^verbatim>\<open>BccspBackedSigner\<close>, reached with a signer from either path.\<close>

definition new_local_signer ::
  "('s, 'g, 'p, 'l) env \<Rightarrow> 'g \<Rightarrow> x509_Certificate option \<Rightarrow> 'p \<Rightarrow> 's st \<Rightarrow> (error + 'l) go \<times> 's st" where
  "new_local_signer E cspSigner parsedCa policy \<sigma> =
     (case local_NewSigner E cspSigner parsedCa (DefaultSigAlgo E cspSigner) policy of
        Inl err \<Rightarrow> (Ret (Inl (WithMessage err ''Failed to create new signer'')), emit Call_local_NewSigner \<sigma>)
      | Inr signer \<Rightarrow> (Ret (Inr signer), emit Call_local_NewSigner \<sigma>))"

definition BccspBackedSigner ::
  "('s, 'g, 'p, 'l) env \<Rightarrow> string \<Rightarrow> string \<Rightarrow> 'p \<Rightarrow> 's BCCSP option \<Rightarrow> 's st \<Rightarrow> (error + 'l) go \<times> 's st" where
  "BccspBackedSigner E caFile keyFile policy csp \<sigma> =
     (case GetSignerFromCertFile E caFile csp \<sigma> of
        (Inl (err, parsedCa), \<sigma>1) \<Rightarrow>
          (case ImportBCCSPKeyFromPEM E keyFile csp False (emit (Log fallback_log) \<sigma>1) of
             (Panic p, \<sigma>2) \<Rightarrow> (Panic p, \<sigma>2)
           | (Ret (Inl err), \<sigma>2) \<Rightarrow> (Ret (Inl (keyfile_error keyFile err)), \<sigma>2)
           | (Ret (Inr key), \<sigma>2) \<Rightarrow>
               (case cspsigner_New E csp key of
                  Inl err \<Rightarrow>
                    (Ret (Inl (WithMessage err ''Failed initializing CryptoSigner'')),
                     emit (Call_cspsigner_New key) \<sigma>2)
                | Inr signer \<Rightarrow>
                    new_local_signer E signer parsedCa policy (emit (Call_cspsigner_New key) \<sigma>2)))
      | (Inr (key, cspSigner, parsedCa), \<sigma>1) \<Rightarrow>
          new_local_signer E cspSigner (Some parsedCa) policy \<sigma>1)"

section \<open>Certificate-chain loading: \<^verbatim>\<open>LoadX509KeyPair\<close>\<close>

text \<open>\<^verbatim>\<open>strings.HasSuffix\<close>.\<close>

definition HasSuffix :: "string \<Rightarrow> string \<Rightarrow> bool" where
  "HasSuffix s suffix = (length suffix \<le> length s \<and> drop (length s - length suffix) s = suffix)"

text \<open>
  The decoding loop. It ends when \<^verbatim>\<open>pem.Decode\<close> finds no further block; a decoder
  that kept finding blocks would keep it running, which is the value \<open>None\<close>.
\<close>

partial_function (option) decode_blocks ::
  "(bytes \<Rightarrow> pem_Block option \<times> bytes) \<Rightarrow> bytes \<Rightarrow> bytes list \<times> string list \<Rightarrow>
     (bytes list \<times> string list) option" where
  "decode_blocks decode certPEMBlock acc =
     (case decode certPEMBlock of
        (None, rest) \<Rightarrow> Some acc
      | (Some certDERBlock, rest) \<Rightarrow>
          decode_blocks decode rest
            (if Type certDERBlock = ''CERTIFICATE''
             then (fst acc @ [Bytes certDERBlock], snd acc)
             else (fst acc, snd acc @ [Type certDERBlock])))"

definition no_certificate_error :: "string \<Rightarrow> string list \<Rightarrow> error" where
  "no_certificate_error certFile skippedBlockTypes =
     (if length skippedBlockTypes = 0 then ''Failed to find PEM block in file '' @ certFile
      else if length skippedBlockTypes = 1 \<and> HasSuffix (skippedBlockTypes ! 0) ''PRIVATE KEY'' then
        ''Failed to find certificate PEM data in file '' @ certFile
        @ '', but did find a private key; PEM inputs may have been switched''
      else
        ''Failed to find '' @ [CHR 0x22] @ ''CERTIFICATE'' @ [CHR 0x22] @ '' PEM block in file '' @ certFile
        @ '' after skipping PEM blocks of the following types: '' @ fmt_v_strings skippedBlockTypes)"

definition LoadX509KeyPair ::
  "('s, 'g, 'p, 'l) env \<Rightarrow> string \<Rightarrow> string \<Rightarrow> 's BCCSP option \<Rightarrow> 's st \<Rightarrow>
     ((error + 'g tls_Certificate) \<times> 's st) option" where
  "LoadX509KeyPair E certFile keyFile csp \<sigma> =
     (case call (Call_ReadFile certFile) (ReadFile E certFile) \<sigma> of
        (Inl err, \<sigma>1) \<Rightarrow> Some (Inl err, \<sigma>1)
      | (Inr certPEMBlock, \<sigma>1) \<Rightarrow>
          (case decode_blocks (pem_Decode E) certPEMBlock ([], []) of
             None \<Rightarrow> None
           | Some (certs, skippedBlockTypes) \<Rightarrow>
               Some
                 (if length certs = 0 then (Inl (no_certificate_error certFile skippedBlockTypes), \<sigma>1)
                  else
                    case x509_ParseCertificate E (certs ! 0) of
                      Inl err \<Rightarrow> (Inl err, \<sigma>1)
                    | Inr x509Cert \<Rightarrow>
                        (case GetSignerFromCert E x509Cert csp \<sigma>1 of
                           (Inr (key, signer), \<sigma>2) \<Rightarrow>
                             (Inr \<lparr>Certificate = certs, PrivateKey = Some signer\<rparr>, \<sigma>2)
                         | (Inl err, \<sigma>2) \<Rightarrow>
                             if keyFile \<noteq> [] then
                               (let \<sigma>3 = emit (Log (''Attempting fallback with certfile '' @ certFile
                                                   @ '' and keyfile '' @ keyFile))
                                           (emit (Log (''Could not load TLS certificate with BCCSP: '' @ err)) \<sigma>2)
                                in case call (Call_tls_LoadX509KeyPair certFile keyFile)
                                          (tls_LoadX509KeyPair E certFile keyFile) \<sigma>3 of
                                     (Inl err', \<sigma>4) \<Rightarrow>
                                       (Inl (WithMessage err' (''Could not get the private key '' @ keyFile
                                                               @ '' that matches '' @ certFile)), \<sigma>4)
                                   | (Inr fallbackCerts, \<sigma>4) \<Rightarrow> (Inr fallbackCerts, \<sigma>4))
                             else
                               (Inl (WithMessage err ''Could not load TLS certificate with BCCSP''), \<sigma>2)))))"

section \<open>The CP-ABE key variants and their identifiers\<close>

text \<open>
  The three key types wrap a pointer to a protobuf message, nil or not; \<open>'m\<close> is the
  message and \<open>marshal\<close> is \<^verbatim>\<open>proto.Marshal\<close>. \<^verbatim>\<open>SKI()\<close> returns a byte slice and
  has no error result; the nil slice is the empty list.
\<close>

definition cpabePrivateKey_SKI :: "('m \<Rightarrow> error + bytes) \<Rightarrow> (bytes \<Rightarrow> bytes) \<Rightarrow> 'm option \<Rightarrow> bytes go" where
  "cpabePrivateKey_SKI marshal sha key =
     (case key of
        None \<Rightarrow> Ret []
      | Some m \<Rightarrow> (case marshal m of Inl err \<Rightarrow> Panic (Some err) | Inr raw \<Rightarrow> Ret (sha raw)))"

definition cpabeMasterKey_SKI :: "('m \<Rightarrow> error + bytes) \<Rightarrow> (bytes \<Rightarrow> bytes) \<Rightarrow> 'm option \<Rightarrow> bytes go" where
  "cpabeMasterKey_SKI marshal sha key =
     (case key of
        None \<Rightarrow> Ret []
      | Some m \<Rightarrow> (case marshal m of Inl err \<Rightarrow> Panic (Some err) | Inr raw \<Rightarrow> Ret (sha raw)))"

text \<open>In the parameters variant \<^verbatim>\<open>panic(err)\<close> is not guarded by a test of \<open>err\<close>:
  with a nil error it is \<^verbatim>\<open>panic(nil)\<close>, and the hashing below it is never reached.\<close>

definition cpabeParams_SKI :: "('m \<Rightarrow> error + bytes) \<Rightarrow> (bytes \<Rightarrow> bytes) \<Rightarrow> 'm option \<Rightarrow> bytes go" where
  "cpabeParams_SKI marshal sha params =
     (case params of
        None \<Rightarrow> Ret []
      | Some m \<Rightarrow> (case marshal m of Inl err \<Rightarrow> Panic (Some err) | Inr raw \<Rightarrow> Panic None))"

text \<open>The three implementors of the key interface, and the method call through it.\<close>

datatype 'm cpabe_key = MasterKey "'m option" | PrivateKey_of "'m option" | Params "'m option"

fun cpabe_SKI :: "('m \<Rightarrow> error + bytes) \<Rightarrow> (bytes \<Rightarrow> bytes) \<Rightarrow> 'm cpabe_key \<Rightarrow> bytes go" where
  "cpabe_SKI marshal sha (MasterKey key) = cpabeMasterKey_SKI marshal sha key"
| "cpabe_SKI marshal sha (PrivateKey_of key) = cpabePrivateKey_SKI marshal sha key"
| "cpabe_SKI marshal sha (Params params) = cpabeParams_SKI marshal sha params"

section \<open>The properties' vocabulary\<close>

text \<open>
  The identifier of a CP-ABE private key as the specification words it: an attribute pair
  is hashed as the string "name.value" to its 32-bit AttributeID, the pairs are taken
  sorted by name, and each AttributeID is written as four bytes, most significant first.
\<close>

definition attr_string :: "string \<times> string \<Rightarrow> string" where
  "attr_string p = fst p @ ''.'' @ snd p"

definition AttributeID :: "('s, 'g, 'p, 'l) env \<Rightarrow> string \<times> string \<Rightarrow> int32" where
  "AttributeID E p = int32_of (abe_Hash E (attr_string p))"

definition big_endian_4 :: "32 word \<Rightarrow> bytes" where
  "big_endian_4 v = [ucast (drop_bit 24 v), ucast (drop_bit 16 v), ucast (drop_bit 8 v), ucast v]"

definition canonical_ids :: "('s, 'g, 'p, 'l) env \<Rightarrow> (string \<times> string) list \<Rightarrow> int32 list" where
  "canonical_ids E attrs = map (AttributeID E) (sort_key fst attrs)"

definition canonical_hash_calls :: "(string \<times> string) list \<Rightarrow> event list" where
  "canonical_hash_calls attrs = map (\<lambda>p. Call_Hash (attr_string p)) (sort_key fst attrs)"

definition is_attr :: "('s, 'g, 'p, 'l) env \<Rightarrow> Extension \<Rightarrow> bool" where
  "is_attr E e = (Id_String e = AttrOIDString E)"

definition is_params :: "Extension \<Rightarrow> bool" where
  "is_params e = (Id_String e = ParamsOIDString)"

text \<open>The attribute map an extension value decodes to, empty where it does not decode.\<close>

definition decoded :: "('s, 'g, 'p, 'l) env \<Rightarrow> bytes \<Rightarrow> (string \<times> string) list" where
  "decoded E v = (case json_Unmarshal E v of Inl _ \<Rightarrow> [] | Inr attrs \<Rightarrow> attrs)"

text \<open>
  Two results of decoding an attribute extension present the same map: the same error, or
  the same set of pairs, each a list without a repeated name, in whatever order.
\<close>

fun same_attrs :: "error + (string \<times> string) list \<Rightarrow> error + (string \<times> string) list \<Rightarrow> bool" where
  "same_attrs (Inl e) (Inl e') = (e = e')"
| "same_attrs (Inr xs) (Inr ys) = (distinct (map fst xs) \<and> distinct (map fst ys) \<and> set xs = set ys)"
| "same_attrs _ _ = False"

text \<open>The blocks that repeated decoding finds in a PEM input, in order.\<close>

inductive decodes_to :: "(bytes \<Rightarrow> pem_Block option \<times> bytes) \<Rightarrow> bytes \<Rightarrow> pem_Block list \<Rightarrow> bool" where
  decodes_end: "decode d = (None, rest) \<Longrightarrow> decodes_to decode d []"
| decodes_block: "decode d = (Some b, rest) \<Longrightarrow> decodes_to decode rest bs \<Longrightarrow> decodes_to decode d (b # bs)"

code_pred decodes_to .

section \<open>A concrete environment\<close>

text \<open>
  A small world on which the model can be run: files named by path, certificates told
  apart by one byte, a decoder that reads one block per byte, a digest that reverses its
  input, and a key store holding a private key for the identifier \<open>[1]\<close>, a public key
  for \<open>[2]\<close> and a CP-ABE private key.
\<close>

definition demo_AttrOID :: string where
  "demo_AttrOID = ''1.2.3.4.5.6.7.8.1''"

definition demo_params_ext :: Extension where
  "demo_params_ext = \<lparr>Id_String = ParamsOIDString, Value = [0xAA, 0xBB]\<rparr>"

definition demo_attr_ext :: Extension where
  "demo_attr_ext = \<lparr>Id_String = demo_AttrOID, Value = [0x7B, 0x7D]\<rparr>"

definition demo_bad_ext :: Extension where
  "demo_bad_ext = \<lparr>Id_String = demo_AttrOID, Value = [0x3F]\<rparr>"

definition demo_read :: "string \<Rightarrow> unit \<Rightarrow> (error + bytes) \<times> unit" where
  "demo_read path w =
     (if path = ''cert.pem'' then Inr [1]
      else if path = ''attrs-only.pem'' then Inr [2]
      else if path = ''bad-attrs.pem'' then Inr [3]
      else if path = ''plain.pem'' then Inr [4]
      else if path = ''ec-key.pem'' then Inr [5]
      else if path = ''rsa-key.pem'' then Inr [6]
      else if path = ''swapped.pem'' then Inr [2]
      else if path = ''crl-and-key.pem'' then Inr [3, 2]
      else Inl ''no such file or directory'', w)"

definition demo_parse :: "bytes \<Rightarrow> error + x509_Certificate" where
  "demo_parse b =
     (if b = [1] then Inr \<lparr>Raw = [1], Extensions = [demo_params_ext, demo_attr_ext]\<rparr>
      else if b = [2] then Inr \<lparr>Raw = [2], Extensions = [demo_attr_ext]\<rparr>
      else if b = [3] then Inr \<lparr>Raw = [3], Extensions = [demo_bad_ext]\<rparr>
      else if b = [4] then Inr \<lparr>Raw = [4], Extensions = []\<rparr>
      else Inl ''failed to decode certificate'')"

definition demo_unmarshal :: "bytes \<Rightarrow> error + (string \<times> string) list" where
  "demo_unmarshal v =
     (if v = [0x7B, 0x7D] then Inr [(''role'', ''admin''), (''dept'', ''eng'')]
      else Inl ''invalid character'')"

definition demo_unmarshal_other_order :: "bytes \<Rightarrow> error + (string \<times> string) list" where
  "demo_unmarshal_other_order v =
     (if v = [0x7B, 0x7D] then Inr [(''dept'', ''eng''), (''role'', ''admin'')]
      else Inl ''invalid character'')"

definition demo_pem_key :: "bytes \<Rightarrow> error + pem_key" where
  "demo_pem_key b =
     (if b = [5] then Inr (ECDSA_PrivateKey [5])
      else if b = [6] then Inr (RSA_PrivateKey [6])
      else Inl ''not a private key'')"

fun demo_decode :: "bytes \<Rightarrow> pem_Block option \<times> bytes" where
  "demo_decode [] = (None, [])"
| "demo_decode (x # rest) =
     (Some \<lparr>Type = (if x = 1 then ''CERTIFICATE'' else if x = 2 then ''EC PRIVATE KEY'' else ''X509 CRL''),
            Bytes = [x]\<rparr>, rest)"

definition demo_env :: "(unit, Key, unit, Key) env" where
  "demo_env =
     \<lparr>ReadFile = demo_read,
      ParseCertificatePEM = demo_parse,
      x509_ParseCertificate = demo_parse,
      pem_Decode = demo_decode,
      json_Unmarshal = demo_unmarshal,
      AttrOIDString = demo_AttrOID,
      abe_Hash = (\<lambda>s. int (length s)),
      sha256 = rev,
      PEMtoPrivateKey = demo_pem_key,
      PrivateKeyToDER = Inr,
      cspsigner_New = (\<lambda>csp key. if Private key then Inr key else Inl ''not a private key''),
      DefaultSigAlgo = (\<lambda>signer. 0),
      local_NewSigner = (\<lambda>signer ca algo policy. Inr signer),
      tls_LoadX509KeyPair = (\<lambda>certFile keyFile w. (Inl ''tls: failed to find any PEM data'', w))\<rparr>"

definition demo_cpabe_ski :: bytes where
  "demo_cpabe_ski = rev ([0xAA, 0xBB] @ [0, 0, 0, 8] @ [0, 0, 0, 10])"

definition demo_csp :: "unit BCCSP" where
  "demo_csp =
     \<lparr>KeyImport =
        (\<lambda>raw opts w.
           (case raw of
              RawCertificate c \<Rightarrow> Inr \<lparr>SKI = Raw c, Private = False\<rparr>
            | RawBytes b \<Rightarrow>
                Inr \<lparr>SKI = b, Private = (case opts of ECDSAPrivateKeyImportOpts t \<Rightarrow> True | _ \<Rightarrow> False)\<rparr>,
            w)),
      GetKey =
        (\<lambda>ski w.
           (if ski = [1] then Inr \<lparr>SKI = [1], Private = True\<rparr>
            else if ski = [2] then Inr \<lparr>SKI = [2], Private = False\<rparr>
            else if ski = demo_cpabe_ski then Inr \<lparr>SKI = demo_cpabe_ski, Private = True\<rparr>
            else Inl ''key not found'', w))\<rparr>"

definition demo_marshal :: "bytes \<Rightarrow> error + bytes" where
  "demo_marshal m = (if m = [] then Inl ''proto: required field not set'' else Inr m)"

section \<open>Unfolding the concrete environment\<close>

lemmas demo_defs =
  demo_env_def demo_csp_def demo_read_def demo_parse_def demo_unmarshal_def demo_params_ext_def
  demo_attr_ext_def demo_bad_ext_def demo_AttrOID_def demo_pem_key_def demo_cpabe_ski_def
  ParamsOIDString_def

section \<open>Properties of the key-option table\<close>

text \<open>
  C8. \<^verbatim>\<open>getBCCSPKeyOpts\<close> implements the selection table exactly. A nil request gives
  the default ECDSA options with \<^verbatim>\<open>Temporary\<close> equal to the \<open>ephemeral\<close> argument.
  RSA with size 2048, 3072 or 4096 gives the option struct of that size, and any other RSA
  size fails with the invalid-RSA-size error. ECDSA with size 256 or 384 gives the option
  struct of that curve; size 521 fails with "Unsupported ECDSA key size: 521", which is a
  different error from the "Invalid ECDSA key size" one that every other ECDSA size gets,
  whatever that size is. Any other algorithm name fails with the invalid-algorithm error.
\<close>

theorem getBCCSPKeyOpts_table:
  "getBCCSPKeyOpts None eph = Inr (ECDSAKeyGenOpts eph)
   \<and> (Algo r = ''rsa'' \<and> Size r = 2048 \<longrightarrow> getBCCSPKeyOpts (Some r) eph = Inr (RSA2048KeyGenOpts eph))
   \<and> (Algo r = ''rsa'' \<and> Size r = 3072 \<longrightarrow> getBCCSPKeyOpts (Some r) eph = Inr (RSA3072KeyGenOpts eph))
   \<and> (Algo r = ''rsa'' \<and> Size r = 4096 \<longrightarrow> getBCCSPKeyOpts (Some r) eph = Inr (RSA4096KeyGenOpts eph))
   \<and> (Algo r = ''rsa'' \<and> Size r \<noteq> 2048 \<and> Size r \<noteq> 3072 \<and> Size r \<noteq> 4096 \<longrightarrow>
          getBCCSPKeyOpts (Some r) eph = Inl (''Invalid RSA key size: '' @ fmt_d (Size r)))
   \<and> (Algo r = ''ecdsa'' \<and> Size r = 256 \<longrightarrow> getBCCSPKeyOpts (Some r) eph = Inr (ECDSAP256KeyGenOpts eph))
   \<and> (Algo r = ''ecdsa'' \<and> Size r = 384 \<longrightarrow> getBCCSPKeyOpts (Some r) eph = Inr (ECDSAP384KeyGenOpts eph))
   \<and> (Algo r = ''ecdsa'' \<and> Size r = 521 \<longrightarrow>
          getBCCSPKeyOpts (Some r) eph = Inl ''Unsupported ECDSA key size: 521'')
   \<and> (Algo r = ''ecdsa'' \<and> Size r \<noteq> 256 \<and> Size r \<noteq> 384 \<and> Size r \<noteq> 521 \<longrightarrow>
          getBCCSPKeyOpts (Some r) eph = Inl (''Invalid ECDSA key size: '' @ fmt_d (Size r))
          \<and> getBCCSPKeyOpts (Some r) eph \<noteq> Inl ''Unsupported ECDSA key size: 521'')
   \<and> (Algo r \<noteq> ''rsa'' \<and> Algo r \<noteq> ''ecdsa'' \<longrightarrow>
          getBCCSPKeyOpts (Some r) eph = Inl (''Invalid algorithm: '' @ Algo r))"
  by (simp add: getBCCSPKeyOpts_def)

theorem getBCCSPKeyOpts_table_witness:
  "getBCCSPKeyOpts (Some \<lparr>Algo = ''rsa'', Size = 2048\<rparr>) True = Inr (RSA2048KeyGenOpts True)
   \<and> getBCCSPKeyOpts (Some \<lparr>Algo = ''rsa'', Size = 3072\<rparr>) False = Inr (RSA3072KeyGenOpts False)
   \<and> getBCCSPKeyOpts (Some \<lparr>Algo = ''rsa'', Size = 4096\<rparr>) False = Inr (RSA4096KeyGenOpts False)
   \<and> getBCCSPKeyOpts (Some \<lparr>Algo = ''rsa'', Size = 1024\<rparr>) False = Inl ''Invalid RSA key size: 1024''
   \<and> getBCCSPKeyOpts (Some \<lparr>Algo = ''ecdsa'', Size = 256\<rparr>) True = Inr (ECDSAP256KeyGenOpts True)
   \<and> getBCCSPKeyOpts (Some \<lparr>Algo = ''ecdsa'', Size = 384\<rparr>) False = Inr (ECDSAP384KeyGenOpts False)
   \<and> getBCCSPKeyOpts (Some \<lparr>Algo = ''ecdsa'', Size = 521\<rparr>) False = Inl ''Unsupported ECDSA key size: 521''
   \<and> getBCCSPKeyOpts (Some \<lparr>Algo = ''ecdsa'', Size = 1234\<rparr>) False = Inl ''Invalid ECDSA key size: 1234''
   \<and> getBCCSPKeyOpts (Some \<lparr>Algo = ''dsa'', Size = 2048\<rparr>) False = Inl ''Invalid algorithm: dsa''
   \<and> getBCCSPKeyOpts None True = Inr (ECDSAKeyGenOpts True)"
proof -
  have fmt: "fmt_d 1024 = ''1024''" "fmt_d 1234 = ''1234''"
    by (simp_all add: fmt_d_def digit_char_def)
  show ?thesis
    using getBCCSPKeyOpts_table [of True "\<lparr>Algo = ''rsa'', Size = 2048\<rparr>"]
      getBCCSPKeyOpts_table [of False "\<lparr>Algo = ''rsa'', Size = 3072\<rparr>"]
      getBCCSPKeyOpts_table [of False "\<lparr>Algo = ''rsa'', Size = 4096\<rparr>"]
      getBCCSPKeyOpts_table [of False "\<lparr>Algo = ''rsa'', Size = 1024\<rparr>"]
      getBCCSPKeyOpts_table [of True "\<lparr>Algo = ''ecdsa'', Size = 256\<rparr>"]
      getBCCSPKeyOpts_table [of False "\<lparr>Algo = ''ecdsa'', Size = 384\<rparr>"]
      getBCCSPKeyOpts_table [of False "\<lparr>Algo = ''ecdsa'', Size = 521\<rparr>"]
      getBCCSPKeyOpts_table [of False "\<lparr>Algo = ''ecdsa'', Size = 1234\<rparr>"]
      getBCCSPKeyOpts_table [of False "\<lparr>Algo = ''dsa'', Size = 2048\<rparr>"]
    by (simp add: fmt)
qed

section \<open>Properties of the attribute-key lookup\<close>

lemma append_attribute_ids_eq:
  "append_attribute_ids E attrs keys (ids, \<sigma>) =
     (ids @ map (\<lambda>k. AttributeID E (k, map_index attrs k)) keys,
      (fst \<sigma>, snd \<sigma> @ map (\<lambda>k. Call_Hash (attr_string (k, map_index attrs k))) keys))"
  by (induction keys arbitrary: ids \<sigma>) (simp_all add: AttributeID_def attr_string_def emit_def Let_def)

lemma sort_map_fst: "sort (map f xs) = map f (sort_key f xs)"
  by (rule properties_for_sort) simp_all

lemma pairs_of_sorted_names:
  assumes "distinct (map fst attrs)"
  shows "map (\<lambda>k. (k, map_index attrs k)) (sort (map fst attrs)) = sort_key fst attrs"
proof -
  have "map_index attrs (fst p) = snd p" if "p \<in> set attrs" for p
  proof (cases p)
    case (Pair k v)
    with that assms show ?thesis by (simp add: map_index_def)
  qed
  then have "map (\<lambda>p. (fst p, map_index attrs (fst p))) (sort_key fst attrs) = sort_key fst attrs"
    by (intro map_idI) simp
  then show ?thesis by (simp add: sort_map_fst comp_def)
qed

lemma put_attributes_eq:
  "length pre = i * 4 \<Longrightarrow>
   put_attributes i ids (pre @ replicate (length ids * 4) 0) = Ret (pre @ concat (map big_endian_4 ids))"
proof (induction ids arbitrary: i pre)
  case Nil
  then show ?case by simp
next
  case (Cons a ids)
  have "put_attributes (Suc i) ids ((pre @ big_endian_4 a) @ replicate (length ids * 4) 0)
        = Ret ((pre @ big_endian_4 a) @ concat (map big_endian_4 ids))"
    by (rule Cons.IH) (simp add: Cons.prems big_endian_4_def [of a])
  moreover have "replicate (Suc (length ids) * 4) (0::byte) = [0, 0, 0, 0] @ replicate (length ids * 4) 0"
    by (simp add: replicate_add [symmetric] numeral_eq_Suc)
  ultimately show ?case using Cons.prems
    by (simp add: PutUint32_def big_endian_4_def [of a])
qed

lemma marshal_attributeID_eq: "marshal_attributeID ids = Ret (concat (map big_endian_4 ids))"
  using put_attributes_eq [of "[]" 0 ids] by (simp add: marshal_attributeID_def)


lemma big_endian_4_example: "big_endian_4 0x01020304 = [1, 2, 3, 4]"
  by (simp add: big_endian_4_def)

lemma big_endian_4_value:
  "big_endian_4 v = [b0, b1, b2, b3] \<Longrightarrow>
     v = push_bit 24 (ucast b0) OR push_bit 16 (ucast b1) OR push_bit 8 (ucast b2) OR ucast b3"
  apply (simp add: big_endian_4_def)
  apply (rule bit_word_eqI)
  apply (auto simp add: bit_simps)
  subgoal for n by (cases "16 \<le> n") auto
  subgoal for n by (cases "16 \<le> n") auto
  done

lemma append_sorted_names:
  assumes "distinct (map fst attrs)"
  shows "append_attribute_ids E attrs (sort (map fst attrs)) (ids, \<sigma>) =
           (ids @ canonical_ids E attrs, (fst \<sigma>, snd \<sigma> @ canonical_hash_calls attrs))"
proof -
  have "map (\<lambda>k. AttributeID E (k, map_index attrs k)) (sort (map fst attrs))
        = map (AttributeID E) (map (\<lambda>k. (k, map_index attrs k)) (sort (map fst attrs)))"
    by (simp add: comp_def)
  moreover have "map (\<lambda>k. Call_Hash (attr_string (k, map_index attrs k))) (sort (map fst attrs))
        = map (\<lambda>p. Call_Hash (attr_string p)) (map (\<lambda>k. (k, map_index attrs k)) (sort (map fst attrs)))"
    by (simp add: comp_def)
  ultimately show ?thesis
    by (simp only: append_attribute_ids_eq pairs_of_sorted_names [OF assms]
        canonical_ids_def canonical_hash_calls_def)
qed

lemma scan_extensions_decoded:
  assumes "\<forall>e \<in> set es. Id_String e = AttrOIDString E \<longrightarrow>
             (\<exists>attrs. json_Unmarshal E (Value e) = Inr attrs \<and> distinct (map fst attrs))"
  shows "scan_extensions E es ((p, ids), \<sigma>) =
           (Inr (scan_params es p,
                 ids @ concat (map (\<lambda>e. canonical_ids E (decoded E (Value e))) (filter (is_attr E) es))),
            (fst \<sigma>,
             snd \<sigma> @ concat (map (\<lambda>e. canonical_hash_calls (decoded E (Value e))) (filter (is_attr E) es))))"
  using assms
proof (induction es arbitrary: p ids \<sigma>)
  case Nil
  then show ?case by simp
next
  case (Cons e es)
  show ?case
  proof (cases "Id_String e = AttrOIDString E")
    case True
    with Cons.prems obtain attrs where a: "json_Unmarshal E (Value e) = Inr attrs" "distinct (map fst attrs)"
      by auto
    with True Cons.IH Cons.prems show ?thesis
      by (simp add: append_sorted_names is_attr_def decoded_def)
  next
    case False
    with Cons.IH Cons.prems show ?thesis
      by (simp add: is_attr_def)
  qed
qed

lemma scan_extensions_state:
  "scan_extensions E es ((p, ids), \<sigma>) = (r, \<sigma>') \<Longrightarrow>
     fst \<sigma>' = fst \<sigma> \<and> (\<exists>hs. snd \<sigma>' = snd \<sigma> @ map Call_Hash hs)"
proof (induction es arbitrary: p ids \<sigma>)
  case Nil
  then show ?case by auto
next
  case (Cons e es)
  show ?case
  proof (cases "Id_String e = AttrOIDString E")
    case False
    with Cons.prems Cons.IH show ?thesis by (simp add: Let_def)
  next
    case True
    show ?thesis
    proof (cases "json_Unmarshal E (Value e)")
      case (Inl err)
      with True Cons.prems show ?thesis by auto
    next
      case (Inr attrs)
      let ?ks = "sort (map fst attrs)"
      let ?hs = "map (\<lambda>k. attr_string (k, map_index attrs k)) ?ks"
      from Inr True Cons.prems obtain p' ids' where
        "scan_extensions E es ((p', ids'), (fst \<sigma>, snd \<sigma> @ map Call_Hash ?hs)) = (r, \<sigma>')"
        by (simp add: append_attribute_ids_eq Let_def comp_def)
      from Cons.IH [OF this] obtain hs where "fst \<sigma>' = fst \<sigma>" "snd \<sigma>' = snd \<sigma> @ map Call_Hash (?hs @ hs)"
        by auto
      then show ?thesis by blast
    qed
  qed
qed

lemma scan_extensions_params:
  "scan_extensions E es ((p, ids), \<sigma>) = (Inr (p', ids'), \<sigma>') \<Longrightarrow> p' = scan_params es p"
proof (induction es arbitrary: p ids \<sigma>)
  case Nil
  then show ?case by simp
next
  case (Cons e es)
  then show ?case
    by (auto simp: Let_def append_attribute_ids_eq split: if_splits sum.splits)
qed

lemma scan_extensions_unmarshal_error:
  assumes "e \<in> set es" "Id_String e = AttrOIDString E" "json_Unmarshal E (Value e) = Inl err0"
  shows "\<exists>e' \<in> set es. \<exists>err \<sigma>'. Id_String e' = AttrOIDString E \<and> json_Unmarshal E (Value e') = Inl err
           \<and> scan_extensions E es ((p, ids), \<sigma>) = (Inl (''unmarshal Attributes error, '' @ err), \<sigma>')"
  using assms
proof (induction es arbitrary: p ids \<sigma>)
  case Nil
  then show ?case by simp
next
  case (Cons x es)
  show ?case
  proof (cases "Id_String x = AttrOIDString E")
    case False
    with Cons.prems have "e \<in> set es" by auto
    from Cons.IH [OF this Cons.prems(2,3)] False show ?thesis
      by (auto simp: Let_def)
  next
    case True
    show ?thesis
    proof (cases "json_Unmarshal E (Value x)")
      case (Inl err)
      with True show ?thesis by auto
    next
      case (Inr attrs)
      with Cons.prems have "e \<in> set es" by auto
      from Cons.IH [OF this Cons.prems(2,3)] True Inr show ?thesis
        by (auto simp: Let_def append_attribute_ids_eq)
    qed
  qed
qed

lemma scan_params_absent:
  "\<forall>e \<in> set es. Id_String e \<noteq> ParamsOIDString \<Longrightarrow> scan_params es p = p"
  by (induction es arbitrary: p) simp_all

lemma scan_params_last:
  "filter is_params es \<noteq> [] \<Longrightarrow> scan_params es p = Some (Value (last (filter is_params es)))"
proof (induction es arbitrary: p)
  case Nil
  then show ?case by simp
next
  case (Cons e es)
  have step: "scan_params (e # es) p = scan_params es (if is_params e then Some (Value e) else p)"
    by (simp add: is_params_def)
  show ?case
  proof (cases "filter is_params es = []")
    case True
    then have "\<forall>e \<in> set es. Id_String e \<noteq> ParamsOIDString"
      by (auto simp: filter_empty_conv is_params_def)
    then have "scan_params es q = q" for q by (rule scan_params_absent)
    with Cons.prems True show ?thesis unfolding step by (simp split: if_splits)
  next
    case False
    with Cons.IH show ?thesis unfolding step by simp
  qed
qed

text \<open>
  C2. For a certificate that carries the Params extension and an attribute extension whose
  payload decodes to the attribute map \<open>attrs\<close>, \<^verbatim>\<open>BccspBackedCPABEPrivateKey\<close> asks
  the key store for exactly one key, and the identifier it asks with is the SHA-256 digest
  of the Params extension's bytes followed by the four big-endian bytes of each AttributeID,
  where the AttributeID of a pair is the 32-bit hash of "name.value" and the pairs are
  taken sorted by name. What the key store answers is what the function returns.
\<close>

theorem CPABEPrivateKey_identifier:
  assumes "ReadFile E certFile w = (Inr certBytes, w1)"
    and "ParseCertificatePEM E certBytes = Inr cert"
    and "filter is_params (Extensions cert) = [pe]"
    and "filter (is_attr E) (Extensions cert) = [ae]"
    and "json_Unmarshal E (Value ae) = Inr attrs"
    and "distinct (map fst attrs)"
    and "ski = sha256 E (Value pe @ concat (map (\<lambda>p. big_endian_4 (AttributeID E p)) (sort_key fst attrs)))"
    and "GetKey c ski w1 = (r, w2)"
  shows "BccspBackedCPABEPrivateKey E certFile (Some c) (w, tr) =
           (Ret (case r of Inl err \<Rightarrow> Inl err | Inr key \<Rightarrow> Inr (Some key)),
            (w2, tr @ [Call_ReadFile certFile] @ canonical_hash_calls attrs
                    @ [Call_sha256 (Value pe @ concat (map big_endian_4 (canonical_ids E attrs))),
                       Call_GetKey ski]))"
proof -
  have dec: "\<forall>e \<in> set (Extensions cert). Id_String e = AttrOIDString E \<longrightarrow>
               (\<exists>attrs. json_Unmarshal E (Value e) = Inr attrs \<and> distinct (map fst attrs))"
  proof (intro ballI impI)
    fix e assume "e \<in> set (Extensions cert)" "Id_String e = AttrOIDString E"
    then have "e \<in> set (filter (is_attr E) (Extensions cert))" by (simp add: is_attr_def)
    with assms(4) have "e = ae" by simp
    with assms(5,6) show "\<exists>attrs. json_Unmarshal E (Value e) = Inr attrs \<and> distinct (map fst attrs)"
      by simp
  qed
  have par: "scan_params (Extensions cert) None = Some (Value pe)"
    using scan_params_last [of "Extensions cert" None] assms(3) by simp
  have scan: "scan_extensions E (Extensions cert) ((None, []), (w1, tr @ [Call_ReadFile certFile])) =
                (Inr (Some (Value pe), canonical_ids E attrs),
                 (w1, tr @ [Call_ReadFile certFile] @ canonical_hash_calls attrs))"
    using scan_extensions_decoded [OF dec, of None "[]" "(w1, tr @ [Call_ReadFile certFile])"]
    by (simp add: par assms(4,5) decoded_def)
  have ids: "concat (map (\<lambda>p. big_endian_4 (AttributeID E p)) (sort_key fst attrs))
             = concat (map big_endian_4 (canonical_ids E attrs))"
    by (simp add: canonical_ids_def comp_def)
  show ?thesis
    using assms(1,2,8)
    by (simp add: BccspBackedCPABEPrivateKey_def call_def scan marshal_attributeID_eq emit_def
        assms(7) ids split: sum.split)
qed


theorem CPABEPrivateKey_identifier_witness:
  "BccspBackedCPABEPrivateKey demo_env ''cert.pem'' (Some demo_csp) ((), []) =
     (Ret (Inr (Some \<lparr>SKI = demo_cpabe_ski, Private = True\<rparr>)),
      ((), [Call_ReadFile ''cert.pem'', Call_Hash ''dept.eng'', Call_Hash ''role.admin'',
            Call_sha256 [0xAA, 0xBB, 0, 0, 0, 8, 0, 0, 0, 10], Call_GetKey demo_cpabe_ski]))"
proof -
  let ?cert = "\<lparr>Raw = [1], Extensions = [demo_params_ext, demo_attr_ext]\<rparr>"
  let ?attrs = "[(''role'', ''admin''), (''dept'', ''eng'')]"
  have sorted: "sort_key fst ?attrs = [(''dept'', ''eng''), (''role'', ''admin'')]"
    by simp
  have h1: "ReadFile demo_env ''cert.pem'' () = (Inr [1], ())"
    by (simp add: demo_defs)
  have h2: "ParseCertificatePEM demo_env [1] = Inr ?cert"
    by (simp add: demo_defs)
  have h3: "filter is_params (Extensions ?cert) = [demo_params_ext]"
    by (simp add: demo_defs is_params_def)
  have h4: "filter (is_attr demo_env) (Extensions ?cert) = [demo_attr_ext]"
    by (simp add: demo_defs is_attr_def)
  have h5: "json_Unmarshal demo_env (Value demo_attr_ext) = Inr ?attrs"
    by (simp add: demo_defs)
  have h6: "distinct (map fst ?attrs)"
    by simp
  have h7: "demo_cpabe_ski = sha256 demo_env (Value demo_params_ext
              @ concat (map (\<lambda>p. big_endian_4 (AttributeID demo_env p)) (sort_key fst ?attrs)))"
    unfolding sorted
    by (simp add: demo_defs AttributeID_def attr_string_def int32_of_def big_endian_4_def)
  have h8: "GetKey demo_csp demo_cpabe_ski () = (Inr \<lparr>SKI = demo_cpabe_ski, Private = True\<rparr>, ())"
    by (simp add: demo_defs)
  show ?thesis
    using CPABEPrivateKey_identifier [OF h1 h2 h3 h4 h5 h6 h7 h8, of "[]"]
    unfolding canonical_hash_calls_def canonical_ids_def sorted
    by (simp add: demo_defs AttributeID_def attr_string_def int32_of_def big_endian_4_def)
qed

lemma same_pairs_names:
  assumes "distinct (map fst xs)" "distinct (map fst ys)" "set xs = set ys"
  shows "sort (map fst xs) = sort (map fst ys)" and "map_index xs = map_index ys"
proof -
  have "set (map fst xs) = set (map fst ys)" using assms(3) by simp
  then have "mset (map fst ys) = mset (map fst xs)"
    using set_eq_iff_mset_eq_distinct [OF assms(1,2)] by metis
  then show "sort (map fst xs) = sort (map fst ys)"
    by (intro properties_for_sort) simp_all
  have "map_of xs = map_of ys" using assms by (simp add: map_of_inject_set)
  then show "map_index xs = map_index ys" by (simp add: map_index_def fun_eq_iff)
qed

lemma append_attribute_ids_same:
  assumes "same_attrs (Inr xs) (Inr ys)"
  shows "append_attribute_ids (E\<lparr>json_Unmarshal := u\<rparr>) ys (sort (map fst ys)) acc
         = append_attribute_ids E xs (sort (map fst xs)) acc"
proof -
  from assms have "sort (map fst xs) = sort (map fst ys)" "map_index xs = map_index ys"
    by (simp_all add: same_pairs_names)
  then show ?thesis
    by (cases acc) (simp add: append_attribute_ids_eq AttributeID_def)
qed

lemma scan_extensions_same:
  assumes "\<forall>v. same_attrs (json_Unmarshal E v) (u v)"
  shows "scan_extensions (E\<lparr>json_Unmarshal := u\<rparr>) es ((p, ids), \<sigma>) = scan_extensions E es ((p, ids), \<sigma>)"
proof (induction es arbitrary: p ids \<sigma>)
  case Nil
  show ?case by simp
next
  case (Cons e es)
  show ?case
  proof (cases "Id_String e = AttrOIDString E")
    case False
    with Cons.IH show ?thesis by (simp add: Let_def)
  next
    case True
    from assms have rel: "same_attrs (json_Unmarshal E (Value e)) (u (Value e))" by blast
    show ?thesis
    proof (cases "json_Unmarshal E (Value e)")
      case (Inl err)
      with rel have "u (Value e) = Inl err" by (cases "u (Value e)") simp_all
      with Inl True show ?thesis by simp
    next
      case (Inr xs)
      with rel obtain ys where ys: "u (Value e) = Inr ys" "same_attrs (Inr xs) (Inr ys)"
        by (cases "u (Value e)") simp_all
      show ?thesis
        using True Inr ys(1) append_attribute_ids_same [OF ys(2), where E = E and u = u and acc = "(ids, \<sigma>)"] Cons.IH
        by (simp add: Let_def split: prod.split)
    qed
  qed
qed

text \<open>
  C3. Two presentations of the same attribute map, that is the same (name, value) pairs
  listed in different orders, lead \<^verbatim>\<open>BccspBackedCPABEPrivateKey\<close> to the same AttributeID
  sequence and to the same private-key identifier: whatever order the decoded map is
  visited in (\<open>u\<close> against \<open>json_Unmarshal E\<close>), the IDs appended for one extension,
  the result of the whole scan, and the function's result with its trace of hash and
  key-store calls are identical, because the names are sorted before anything is hashed.
\<close>

theorem attribute_order_invariance:
  assumes "\<forall>v. same_attrs (json_Unmarshal E v) (u v)"
  shows "(\<forall>v xs ys acc. json_Unmarshal E v = Inr xs \<and> u v = Inr ys \<longrightarrow>
            append_attribute_ids (E\<lparr>json_Unmarshal := u\<rparr>) ys (sort (map fst ys)) acc
            = append_attribute_ids E xs (sort (map fst xs)) acc)
       \<and> scan_extensions (E\<lparr>json_Unmarshal := u\<rparr>) es ((p, ids), \<sigma>) = scan_extensions E es ((p, ids), \<sigma>)
       \<and> BccspBackedCPABEPrivateKey (E\<lparr>json_Unmarshal := u\<rparr>) certFile csp \<sigma>
         = BccspBackedCPABEPrivateKey E certFile csp \<sigma>"
proof (intro conjI allI impI)
  fix v xs ys and acc :: "int32 list \<times> 'a st"
  assume "json_Unmarshal E v = Inr xs \<and> u v = Inr ys"
  with assms have "same_attrs (Inr xs) (Inr ys)" by metis
  then show "append_attribute_ids (E\<lparr>json_Unmarshal := u\<rparr>) ys (sort (map fst ys)) acc
              = append_attribute_ids E xs (sort (map fst xs)) acc"
    by (rule append_attribute_ids_same)
next
  show "scan_extensions (E\<lparr>json_Unmarshal := u\<rparr>) es ((p, ids), \<sigma>) = scan_extensions E es ((p, ids), \<sigma>)"
    by (rule scan_extensions_same [OF assms])
next
  show "BccspBackedCPABEPrivateKey (E\<lparr>json_Unmarshal := u\<rparr>) certFile csp \<sigma>
         = BccspBackedCPABEPrivateKey E certFile csp \<sigma>"
    by (simp add: BccspBackedCPABEPrivateKey_def scan_extensions_same [OF assms]
        cong: prod.case_cong sum.case_cong option.case_cong go.case_cong)
qed

theorem attribute_order_invariance_witness:
  "(\<forall>v. same_attrs (json_Unmarshal demo_env v) (demo_unmarshal_other_order v))
   \<and> json_Unmarshal demo_env [0x7B, 0x7D] = Inr [(''role'', ''admin''), (''dept'', ''eng'')]
   \<and> demo_unmarshal_other_order [0x7B, 0x7D] = Inr [(''dept'', ''eng''), (''role'', ''admin'')]
   \<and> append_attribute_ids (demo_env\<lparr>json_Unmarshal := demo_unmarshal_other_order\<rparr>)
         [(''dept'', ''eng''), (''role'', ''admin'')]
         (sort (map fst [(''dept'', ''eng''), (''role'', ''admin'')])) ([], ((), []))
       = ([8, 10], ((), [Call_Hash ''dept.eng'', Call_Hash ''role.admin'']))
   \<and> append_attribute_ids demo_env [(''role'', ''admin''), (''dept'', ''eng'')]
         (sort (map fst [(''role'', ''admin''), (''dept'', ''eng'')])) ([], ((), []))
       = ([8, 10], ((), [Call_Hash ''dept.eng'', Call_Hash ''role.admin'']))
   \<and> BccspBackedCPABEPrivateKey (demo_env\<lparr>json_Unmarshal := demo_unmarshal_other_order\<rparr>)
         ''cert.pem'' (Some demo_csp) ((), [])
       = BccspBackedCPABEPrivateKey demo_env ''cert.pem'' (Some demo_csp) ((), [])"
proof -
  have h: "\<forall>v. same_attrs (json_Unmarshal demo_env v) (demo_unmarshal_other_order v)"
    by (auto simp: demo_defs demo_unmarshal_other_order_def)
  have a: "json_Unmarshal demo_env [0x7B, 0x7D] = Inr [(''role'', ''admin''), (''dept'', ''eng'')]"
    and b: "demo_unmarshal_other_order [0x7B, 0x7D] = Inr [(''dept'', ''eng''), (''role'', ''admin'')]"
    by (simp_all add: demo_defs demo_unmarshal_other_order_def)
  have c: "append_attribute_ids demo_env [(''role'', ''admin''), (''dept'', ''eng'')]
         (sort (map fst [(''role'', ''admin''), (''dept'', ''eng'')])) ([], ((), []))
       = ([8, 10], ((), [Call_Hash ''dept.eng'', Call_Hash ''role.admin'']))"
    by (simp add: demo_defs map_index_def int32_of_def emit_def)
  note inst = attribute_order_invariance [OF h, of "[]" None "[]" "((), [])" "''cert.pem''" "Some demo_csp"]
  from inst a b have "append_attribute_ids (demo_env\<lparr>json_Unmarshal := demo_unmarshal_other_order\<rparr>)
         [(''dept'', ''eng''), (''role'', ''admin'')]
         (sort (map fst [(''dept'', ''eng''), (''role'', ''admin'')])) ([], ((), []))
       = append_attribute_ids demo_env [(''role'', ''admin''), (''dept'', ''eng'')]
         (sort (map fst [(''role'', ''admin''), (''dept'', ''eng'')])) ([], ((), []))"
    by blast
  with inst h a b c show ?thesis by (simp only: simp_thms)
qed

text \<open>
  C10. When the payload of an attribute extension of the certificate is not valid JSON,
  \<^verbatim>\<open>BccspBackedCPABEPrivateKey\<close> returns the "unmarshal Attributes error" that wraps the
  decoder's error for such an extension, whether or not the certificate has a Params
  extension: the scan returns at the failed decoding, before the test for absent Params is
  reached, so the result is never the nil key with nil error. Up to that point only
  attribute hashes were computed; the key store was not asked.
\<close>

theorem malformed_attributes_preempt:
  assumes "ReadFile E certFile w = (Inr certBytes, w1)"
    and "ParseCertificatePEM E certBytes = Inr cert"
    and "e \<in> set (Extensions cert)"
    and "is_attr E e"
    and "json_Unmarshal E (Value e) = Inl err0"
  shows "\<exists>e' \<in> set (Extensions cert). \<exists>err hs.
           is_attr E e' \<and> json_Unmarshal E (Value e') = Inl err
           \<and> BccspBackedCPABEPrivateKey E certFile csp (w, tr) =
               (Ret (Inl (''unmarshal Attributes error, '' @ err)),
                (w1, tr @ Call_ReadFile certFile # map Call_Hash hs))"
proof -
  let ?\<sigma> = "(w1, tr @ [Call_ReadFile certFile])"
  from scan_extensions_unmarshal_error [OF assms(3) assms(4) [unfolded is_attr_def] assms(5), of None "[]" ?\<sigma>]
  obtain e' err \<sigma>' where e': "e' \<in> set (Extensions cert)" "is_attr E e'"
      "json_Unmarshal E (Value e') = Inl err"
      and scan: "scan_extensions E (Extensions cert) ((None, []), ?\<sigma>)
                 = (Inl (''unmarshal Attributes error, '' @ err), \<sigma>')"
    by (auto simp: is_attr_def)
  from scan_extensions_state [OF scan] obtain hs where
    "\<sigma>' = (w1, tr @ Call_ReadFile certFile # map Call_Hash hs)"
    by (cases \<sigma>') auto
  with scan assms(1,2) have "BccspBackedCPABEPrivateKey E certFile csp (w, tr) =
               (Ret (Inl (''unmarshal Attributes error, '' @ err)),
                (w1, tr @ Call_ReadFile certFile # map Call_Hash hs))"
    by (simp add: BccspBackedCPABEPrivateKey_def call_def)
  with e' show ?thesis by blast
qed

theorem malformed_attributes_preempt_witness:
  "filter is_params (Extensions \<lparr>Raw = [3], Extensions = [demo_bad_ext]\<rparr>) = []
   \<and> (\<exists>hs. BccspBackedCPABEPrivateKey demo_env ''bad-attrs.pem'' (Some demo_csp) ((), []) =
         (Ret (Inl ''unmarshal Attributes error, invalid character''),
          ((), Call_ReadFile ''bad-attrs.pem'' # map Call_Hash hs)))"
proof -
  let ?cert = "\<lparr>Raw = [3], Extensions = [demo_bad_ext]\<rparr>"
  have h1: "ReadFile demo_env ''bad-attrs.pem'' () = (Inr [3], ())"
    by (simp add: demo_defs)
  have h2: "ParseCertificatePEM demo_env [3] = Inr ?cert"
    by (simp add: demo_defs)
  have h3: "demo_bad_ext \<in> set (Extensions ?cert)"
    by simp
  have h4: "is_attr demo_env demo_bad_ext"
    by (simp add: demo_defs is_attr_def)
  have h5: "json_Unmarshal demo_env (Value demo_bad_ext) = Inl ''invalid character''"
    by (simp add: demo_defs)
  have np: "filter is_params (Extensions ?cert) = []"
    by (simp add: demo_defs is_params_def)
  from malformed_attributes_preempt [OF h1 h2 h3 h4 h5, of "Some demo_csp" "[]"]
  obtain err hs where
    "json_Unmarshal demo_env (Value demo_bad_ext) = Inl err"
    "BccspBackedCPABEPrivateKey demo_env ''bad-attrs.pem'' (Some demo_csp) ((), []) =
       (Ret (Inl (''unmarshal Attributes error, '' @ err)),
        ((), [] @ Call_ReadFile ''bad-attrs.pem'' # map Call_Hash hs))"
    by auto
  with h5 have "BccspBackedCPABEPrivateKey demo_env ''bad-attrs.pem'' (Some demo_csp) ((), []) =
       (Ret (Inl ''unmarshal Attributes error, invalid character''),
        ((), Call_ReadFile ''bad-attrs.pem'' # map Call_Hash hs))"
    by simp
  with np show ?thesis by blast
qed

text \<open>
  C6, as amended. For a certificate whose extension list has no Params entry,
  \<^verbatim>\<open>BccspBackedCPABEParams\<close> returns the nil key with nil error, having only read the file
  and written the warning to the log. \<^verbatim>\<open>BccspBackedCPABEPrivateKey\<close> returns the nil key
  with nil error provided every attribute extension of the certificate decodes to a map; it
  has then read the file, hashed "name.value" for every pair of every attribute extension,
  in the order of the extensions and by name within each, and written the warning, and it
  has neither computed a SHA-256 digest nor asked the key store. When an attribute
  extension does not decode, it returns the unmarshal error of such an extension, again
  without a digest and without asking the key store.
\<close>

theorem no_params_not_supported:
  assumes "ReadFile E certFile w = (Inr certBytes, w1)"
    and "ParseCertificatePEM E certBytes = Inr cert"
    and "filter is_params (Extensions cert) = []"
  shows "BccspBackedCPABEParams E certFile csp (w, tr) =
           (Ret (Inr None),
            (w1, tr @ [Call_ReadFile certFile, Log (''The certificate in ['' @ certFile @ ''] not support cpabe'')]))
       \<and> ((\<forall>e \<in> set (Extensions cert). is_attr E e \<longrightarrow>
              (\<exists>attrs. json_Unmarshal E (Value e) = Inr attrs \<and> distinct (map fst attrs))) \<longrightarrow>
            BccspBackedCPABEPrivateKey E certFile csp (w, tr) =
              (Ret (Inr None),
               (w1, tr @ [Call_ReadFile certFile]
                       @ concat (map (\<lambda>e. canonical_hash_calls (decoded E (Value e)))
                                   (filter (is_attr E) (Extensions cert)))
                       @ [Log (''The certificate in ['' @ certFile @ ''] not support cpabe'')])))
       \<and> ((\<exists>e \<in> set (Extensions cert). is_attr E e \<and> (\<exists>err. json_Unmarshal E (Value e) = Inl err)) \<longrightarrow>
            (\<exists>e \<in> set (Extensions cert). \<exists>err hs.
               is_attr E e \<and> json_Unmarshal E (Value e) = Inl err
               \<and> BccspBackedCPABEPrivateKey E certFile csp (w, tr) =
                   (Ret (Inl (''unmarshal Attributes error, '' @ err)),
                    (w1, tr @ Call_ReadFile certFile # map Call_Hash hs))))"
proof (intro conjI impI)
  let ?\<sigma> = "(w1, tr @ [Call_ReadFile certFile])"
  from assms(3) have none: "\<forall>e \<in> set (Extensions cert). Id_String e \<noteq> ParamsOIDString"
    by (auto simp: filter_empty_conv is_params_def)
  then have par: "scan_params (Extensions cert) None = None"
    by (rule scan_params_absent)
  show "BccspBackedCPABEParams E certFile csp (w, tr) =
           (Ret (Inr None),
            (w1, tr @ [Call_ReadFile certFile, Log (''The certificate in ['' @ certFile @ ''] not support cpabe'')]))"
    using assms(1,2) by (simp add: BccspBackedCPABEParams_def call_def par emit_def)
  {
    assume dec: "\<forall>e \<in> set (Extensions cert). is_attr E e \<longrightarrow>
              (\<exists>attrs. json_Unmarshal E (Value e) = Inr attrs \<and> distinct (map fst attrs))"
    then have dec': "\<forall>e \<in> set (Extensions cert). Id_String e = AttrOIDString E \<longrightarrow>
              (\<exists>attrs. json_Unmarshal E (Value e) = Inr attrs \<and> distinct (map fst attrs))"
      by (simp add: is_attr_def)
    have scan: "scan_extensions E (Extensions cert) ((None, []), ?\<sigma>) =
                  (Inr (None, concat (map (\<lambda>e. canonical_ids E (decoded E (Value e)))
                                        (filter (is_attr E) (Extensions cert)))),
                   (w1, tr @ [Call_ReadFile certFile]
                          @ concat (map (\<lambda>e. canonical_hash_calls (decoded E (Value e)))
                                      (filter (is_attr E) (Extensions cert)))))"
      using scan_extensions_decoded [OF dec', of None "[]" ?\<sigma>] by (simp add: par)
    show "BccspBackedCPABEPrivateKey E certFile csp (w, tr) =
              (Ret (Inr None),
               (w1, tr @ [Call_ReadFile certFile]
                       @ concat (map (\<lambda>e. canonical_hash_calls (decoded E (Value e)))
                                   (filter (is_attr E) (Extensions cert)))
                       @ [Log (''The certificate in ['' @ certFile @ ''] not support cpabe'')]))"
      using assms(1,2) by (simp add: BccspBackedCPABEPrivateKey_def call_def scan emit_def)
  }
  {
    assume "\<exists>e \<in> set (Extensions cert). is_attr E e \<and> (\<exists>err. json_Unmarshal E (Value e) = Inl err)"
    then obtain e err0 where e: "e \<in> set (Extensions cert)" "Id_String e = AttrOIDString E"
        "json_Unmarshal E (Value e) = Inl err0"
      by (auto simp: is_attr_def)
    from scan_extensions_unmarshal_error [OF e, of None "[]" ?\<sigma>]
    obtain e' err \<sigma>' where e': "e' \<in> set (Extensions cert)" "is_attr E e'"
        "json_Unmarshal E (Value e') = Inl err"
        and scan: "scan_extensions E (Extensions cert) ((None, []), ?\<sigma>)
                   = (Inl (''unmarshal Attributes error, '' @ err), \<sigma>')"
      by (auto simp: is_attr_def)
    from scan_extensions_state [OF scan] obtain hs where
      "\<sigma>' = (w1, tr @ Call_ReadFile certFile # map Call_Hash hs)"
      by (cases \<sigma>') auto
    with scan assms(1,2) have "BccspBackedCPABEPrivateKey E certFile csp (w, tr) =
                 (Ret (Inl (''unmarshal Attributes error, '' @ err)),
                  (w1, tr @ Call_ReadFile certFile # map Call_Hash hs))"
      by (simp add: BccspBackedCPABEPrivateKey_def call_def)
    with e' show "\<exists>e \<in> set (Extensions cert). \<exists>err hs.
               is_attr E e \<and> json_Unmarshal E (Value e) = Inl err
               \<and> BccspBackedCPABEPrivateKey E certFile csp (w, tr) =
                   (Ret (Inl (''unmarshal Attributes error, '' @ err)),
                    (w1, tr @ Call_ReadFile certFile # map Call_Hash hs))"
      by blast
  }
qed

text \<open>
  The claim C6 as it is stated fails on two certificates without a Params entry: one whose
  attribute extension does not decode, for which the private-key lookup returns an error
  and not the nil key with nil error, and one whose attribute extension decodes, for which
  the lookup has hashed both attributes before it returns the nil key.
\<close>

theorem no_params_counterexample:
  "filter is_params [demo_bad_ext] = [] \<and> filter is_params [demo_attr_ext] = []
   \<and> ParseCertificatePEM demo_env [3] = Inr \<lparr>Raw = [3], Extensions = [demo_bad_ext]\<rparr>
   \<and> ParseCertificatePEM demo_env [2] = Inr \<lparr>Raw = [2], Extensions = [demo_attr_ext]\<rparr>
   \<and> BccspBackedCPABEPrivateKey demo_env ''bad-attrs.pem'' (Some demo_csp) ((), []) =
       (Ret (Inl ''unmarshal Attributes error, invalid character''), ((), [Call_ReadFile ''bad-attrs.pem'']))
   \<and> BccspBackedCPABEPrivateKey demo_env ''attrs-only.pem'' (Some demo_csp) ((), []) =
       (Ret (Inr None),
        ((), [Call_ReadFile ''attrs-only.pem'', Call_Hash ''dept.eng'', Call_Hash ''role.admin'',
              Log ''The certificate in [attrs-only.pem] not support cpabe'']))"
  by (simp add: BccspBackedCPABEPrivateKey_def call_def emit_def demo_defs is_params_def map_index_def)

theorem no_params_not_supported_witness:
  "BccspBackedCPABEParams demo_env ''attrs-only.pem'' (Some demo_csp) ((), []) =
     (Ret (Inr None),
      ((), [Call_ReadFile ''attrs-only.pem'', Log ''The certificate in [attrs-only.pem] not support cpabe'']))
   \<and> BccspBackedCPABEPrivateKey demo_env ''attrs-only.pem'' (Some demo_csp) ((), []) =
       (Ret (Inr None),
        ((), [Call_ReadFile ''attrs-only.pem'', Call_Hash ''dept.eng'', Call_Hash ''role.admin'',
              Log ''The certificate in [attrs-only.pem] not support cpabe'']))
   \<and> (\<exists>hs. BccspBackedCPABEPrivateKey demo_env ''bad-attrs.pem'' (Some demo_csp) ((), []) =
         (Ret (Inl ''unmarshal Attributes error, invalid character''),
          ((), Call_ReadFile ''bad-attrs.pem'' # map Call_Hash hs)))"
proof -
  let ?cert = "\<lparr>Raw = [2], Extensions = [demo_attr_ext]\<rparr>"
  let ?bad = "\<lparr>Raw = [3], Extensions = [demo_bad_ext]\<rparr>"
  have h1: "ReadFile demo_env ''attrs-only.pem'' () = (Inr [2], ())"
    by (simp add: demo_defs)
  have h2: "ParseCertificatePEM demo_env [2] = Inr ?cert"
    by (simp add: demo_defs)
  have h3: "filter is_params (Extensions ?cert) = []"
    by (simp add: demo_defs is_params_def)
  have h4: "\<forall>e \<in> set (Extensions ?cert). is_attr demo_env e \<longrightarrow>
              (\<exists>attrs. json_Unmarshal demo_env (Value e) = Inr attrs \<and> distinct (map fst attrs))"
    by (simp add: demo_defs)
  have ia: "is_attr demo_env demo_attr_ext"
    by (simp add: demo_defs is_attr_def)
  have calls: "canonical_hash_calls (decoded demo_env (Value demo_attr_ext))
               = [Call_Hash ''dept.eng'', Call_Hash ''role.admin'']"
    by (simp add: canonical_hash_calls_def decoded_def attr_string_def demo_defs)
  note inst = no_params_not_supported [OF h1 h2 h3, of "Some demo_csp" "[]"]
  from inst have A: "BccspBackedCPABEParams demo_env ''attrs-only.pem'' (Some demo_csp) ((), []) =
     (Ret (Inr None),
      ((), [Call_ReadFile ''attrs-only.pem'', Log ''The certificate in [attrs-only.pem] not support cpabe'']))"
    by simp
  from inst [THEN conjunct2, THEN conjunct1, THEN mp, OF h4]
  have B: "BccspBackedCPABEPrivateKey demo_env ''attrs-only.pem'' (Some demo_csp) ((), []) =
       (Ret (Inr None),
        ((), [Call_ReadFile ''attrs-only.pem'', Call_Hash ''dept.eng'', Call_Hash ''role.admin'',
              Log ''The certificate in [attrs-only.pem] not support cpabe'']))"
    by (simp add: ia calls)
  have b1: "ReadFile demo_env ''bad-attrs.pem'' () = (Inr [3], ())"
    by (simp add: demo_defs)
  have b2: "ParseCertificatePEM demo_env [3] = Inr ?bad"
    by (simp add: demo_defs)
  have b3: "filter is_params (Extensions ?bad) = []"
    by (simp add: demo_defs is_params_def)
  have b4: "\<exists>e \<in> set (Extensions ?bad). is_attr demo_env e \<and> (\<exists>err. json_Unmarshal demo_env (Value e) = Inl err)"
    by (simp add: demo_defs is_attr_def)
  have b5: "json_Unmarshal demo_env (Value demo_bad_ext) = Inl ''invalid character''"
    by (simp add: demo_defs)
  from no_params_not_supported [OF b1 b2 b3, of "Some demo_csp" "[]", THEN conjunct2, THEN conjunct2] b4
  obtain err hs where "json_Unmarshal demo_env (Value demo_bad_ext) = Inl err"
    "BccspBackedCPABEPrivateKey demo_env ''bad-attrs.pem'' (Some demo_csp) ((), []) =
       (Ret (Inl (''unmarshal Attributes error, '' @ err)),
        ((), [] @ Call_ReadFile ''bad-attrs.pem'' # map Call_Hash hs))"
    by auto
  with b5 have C: "\<exists>hs. BccspBackedCPABEPrivateKey demo_env ''bad-attrs.pem'' (Some demo_csp) ((), []) =
         (Ret (Inl ''unmarshal Attributes error, invalid character''),
          ((), Call_ReadFile ''bad-attrs.pem'' # map Call_Hash hs))"
    by auto
  from A B C show ?thesis by blast
qed

section \<open>Properties of signer resolution\<close>

text \<open>
  C5. In \<^verbatim>\<open>GetSignerFromCert\<close>, when the key store returns a key for the identifier
  computed from the certificate and that key is not private, the operation fails with the
  error "The private key associated with the certificate with SKI '...' was not found",
  naming the identifier in hexadecimal, and no signer is constructed from the public key:
  the trace ends with the key-store lookup. When the key is private the signer is
  constructed from it. In every run, whatever the key store and the inputs, a signer is
  returned only for a key that reports private, and \<^verbatim>\<open>cspsigner.New\<close> is called only
  on such a key.
\<close>

theorem GetSignerFromCert_private_only:
  assumes "KeyImport c (RawCertificate cert) (X509PublicKeyImportOpts True) w = (Inr certPubK, w1)"
    and "GetKey c (SKI certPubK) w1 = (Inr key, w2)"
  shows "(\<not> Private key \<longrightarrow>
            GetSignerFromCert E cert (Some c) (w, tr) =
              (Inl (''The private key associated with the certificate with SKI ''
                    @ squote (EncodeToString (SKI certPubK)) @ '' was not found''),
               (w2, tr @ [Call_KeyImport (RawCertificate cert) (X509PublicKeyImportOpts True),
                          Call_GetKey (SKI certPubK)])))
       \<and> (Private key \<longrightarrow>
            GetSignerFromCert E cert (Some c) (w, tr) =
              (case cspsigner_New E (Some c) key of
                 Inl err \<Rightarrow> Inl (WithMessage err ''Failed to load ski from bccsp'')
               | Inr signer \<Rightarrow> Inr (key, signer),
               (w2, tr @ [Call_KeyImport (RawCertificate cert) (X509PublicKeyImportOpts True),
                          Call_GetKey (SKI certPubK), Call_cspsigner_New key])))
       \<and> (\<forall>csp' \<sigma> r \<sigma>'. GetSignerFromCert E cert csp' \<sigma> = (r, \<sigma>') \<longrightarrow>
             (\<forall>k s. r = Inr (k, s) \<longrightarrow> Private k)
             \<and> (\<forall>k. Call_cspsigner_New k \<in> set (drop (length (snd \<sigma>)) (snd \<sigma>')) \<longrightarrow> Private k))"
proof (intro conjI impI allI)
  assume "\<not> Private key"
  with assms show "GetSignerFromCert E cert (Some c) (w, tr) =
              (Inl (''The private key associated with the certificate with SKI ''
                    @ squote (EncodeToString (SKI certPubK)) @ '' was not found''),
               (w2, tr @ [Call_KeyImport (RawCertificate cert) (X509PublicKeyImportOpts True),
                          Call_GetKey (SKI certPubK)]))"
    by (simp add: GetSignerFromCert_def call_def Let_def)
next
  assume "Private key"
  with assms show "GetSignerFromCert E cert (Some c) (w, tr) =
              (case cspsigner_New E (Some c) key of
                 Inl err \<Rightarrow> Inl (WithMessage err ''Failed to load ski from bccsp'')
               | Inr signer \<Rightarrow> Inr (key, signer),
               (w2, tr @ [Call_KeyImport (RawCertificate cert) (X509PublicKeyImportOpts True),
                          Call_GetKey (SKI certPubK), Call_cspsigner_New key]))"
    by (simp add: GetSignerFromCert_def call_def emit_def Let_def split: sum.split)
next
  fix csp' :: "'a BCCSP option" and \<sigma> \<sigma>' :: "'a st" and r :: "error + Key \<times> 'b" and k s
  assume run: "GetSignerFromCert E cert csp' \<sigma> = (r, \<sigma>')" and "r = Inr (k, s)"
  then show "Private k"
    by (auto simp: GetSignerFromCert_def call_def emit_def Let_def
        split: option.splits prod.splits sum.splits if_splits)
next
  fix csp' :: "'a BCCSP option" and \<sigma> \<sigma>' :: "'a st" and r :: "error + Key \<times> 'b" and k
  assume run: "GetSignerFromCert E cert csp' \<sigma> = (r, \<sigma>')"
    and "Call_cspsigner_New k \<in> set (drop (length (snd \<sigma>)) (snd \<sigma>'))"
  then show "Private k"
    by (auto simp: GetSignerFromCert_def call_def emit_def Let_def
        split: option.splits prod.splits sum.splits if_splits)
qed

theorem GetSignerFromCert_private_only_witness:
  "GetSignerFromCert demo_env \<lparr>Raw = [2], Extensions = [demo_attr_ext]\<rparr> (Some demo_csp) ((), []) =
     (Inl ''The private key associated with the certificate with SKI '02' was not found'',
      ((), [Call_KeyImport (RawCertificate \<lparr>Raw = [2], Extensions = [demo_attr_ext]\<rparr>)
              (X509PublicKeyImportOpts True),
            Call_GetKey [2]]))
   \<and> GetSignerFromCert demo_env \<lparr>Raw = [1], Extensions = []\<rparr> (Some demo_csp) ((), []) =
     (Inr (\<lparr>SKI = [1], Private = True\<rparr>, \<lparr>SKI = [1], Private = True\<rparr>),
      ((), [Call_KeyImport (RawCertificate \<lparr>Raw = [1], Extensions = []\<rparr>) (X509PublicKeyImportOpts True),
            Call_GetKey [1], Call_cspsigner_New \<lparr>SKI = [1], Private = True\<rparr>]))"
proof -
  let ?c2 = "\<lparr>Raw = [2], Extensions = [demo_attr_ext]\<rparr>"
  let ?c1 = "\<lparr>Raw = [1], Extensions = []\<rparr>"
  have a1: "KeyImport demo_csp (RawCertificate ?c2) (X509PublicKeyImportOpts True) ()
            = (Inr \<lparr>SKI = [2], Private = False\<rparr>, ())"
    by (simp add: demo_defs)
  have a2: "GetKey demo_csp (SKI \<lparr>SKI = [2], Private = False\<rparr>) () = (Inr \<lparr>SKI = [2], Private = False\<rparr>, ())"
    by (simp add: demo_defs)
  have b1: "KeyImport demo_csp (RawCertificate ?c1) (X509PublicKeyImportOpts True) ()
            = (Inr \<lparr>SKI = [1], Private = False\<rparr>, ())"
    by (simp add: demo_defs)
  have b2: "GetKey demo_csp (SKI \<lparr>SKI = [1], Private = False\<rparr>) () = (Inr \<lparr>SKI = [1], Private = True\<rparr>, ())"
    by (simp add: demo_defs)
  have hex: "squote (EncodeToString [2]) = [CHR 0x27] @ ''02'' @ [CHR 0x27]"
    by (simp add: squote_def EncodeToString_def hex_digit_def)
  note A = GetSignerFromCert_private_only [OF a1 a2, of demo_env "[]", THEN conjunct1]
  note B = GetSignerFromCert_private_only [OF b1 b2, of demo_env "[]", THEN conjunct2, THEN conjunct1]
  have sgn: "cspsigner_New demo_env (Some demo_csp) \<lparr>SKI = [1], Private = True\<rparr>
             = Inr \<lparr>SKI = [1], Private = True\<rparr>"
    by (simp add: demo_env_def)
  from A B show ?thesis
    by (simp add: hex sgn)
qed

text \<open>
  C7. When the private key decoded from the PEM key file is an RSA key,
  \<^verbatim>\<open>ImportBCCSPKeyFromPEM\<close> returns the error "Failed to import RSA key from FILE; RSA
  private key import is not supported", which names the file; the result is an error, so
  it is neither a key nor the nil key with nil error, and the key store is not called,
  whatever the key store and the \<open>temporary\<close> flag are. An ECDSA key read from the
  same file goes on to the key store: once converted to DER and accepted by the store's
  import, the key the store returns is the result.
\<close>

theorem ImportBCCSPKeyFromPEM_rsa_rejected:
  assumes "ReadFile E keyFile w = (Inr keyBuff, w1)"
  shows "(PEMtoPrivateKey E keyBuff = Inr (RSA_PrivateKey k) \<longrightarrow>
            ImportBCCSPKeyFromPEM E keyFile myCSP temporary (w, tr) =
              (Ret (Inl (''Failed to import RSA key from '' @ keyFile
                         @ ''; RSA private key import is not supported'')),
               (w1, tr @ [Call_ReadFile keyFile])))
       \<and> (PEMtoPrivateKey E keyBuff = Inr (ECDSA_PrivateKey k)
            \<and> PrivateKeyToDER E k = Inr priv
            \<and> KeyImport c (RawBytes priv) (ECDSAPrivateKeyImportOpts temporary) w1 = (Inr sk, w2) \<longrightarrow>
            ImportBCCSPKeyFromPEM E keyFile (Some c) temporary (w, tr) =
              (Ret (Inr sk),
               (w2, tr @ [Call_ReadFile keyFile,
                          Call_KeyImport (RawBytes priv) (ECDSAPrivateKeyImportOpts temporary)])))"
  using assms by (simp add: ImportBCCSPKeyFromPEM_def call_def)

theorem ImportBCCSPKeyFromPEM_rsa_rejected_witness:
  "ImportBCCSPKeyFromPEM demo_env ''rsa-key.pem'' (Some demo_csp) False ((), []) =
     (Ret (Inl ''Failed to import RSA key from rsa-key.pem; RSA private key import is not supported''),
      ((), [Call_ReadFile ''rsa-key.pem'']))
   \<and> ImportBCCSPKeyFromPEM demo_env ''ec-key.pem'' (Some demo_csp) False ((), []) =
     (Ret (Inr \<lparr>SKI = [5], Private = True\<rparr>),
      ((), [Call_ReadFile ''ec-key.pem'', Call_KeyImport (RawBytes [5]) (ECDSAPrivateKeyImportOpts False)]))"
proof -
  have r1: "ReadFile demo_env ''rsa-key.pem'' () = (Inr [6], ())"
    and r2: "PEMtoPrivateKey demo_env [6] = Inr (RSA_PrivateKey [6])"
    by (simp_all add: demo_defs)
  have e1: "ReadFile demo_env ''ec-key.pem'' () = (Inr [5], ())"
    and e2: "PEMtoPrivateKey demo_env [5] = Inr (ECDSA_PrivateKey [5])"
    and e3: "PrivateKeyToDER demo_env [5] = Inr [5]"
    and e4: "KeyImport demo_csp (RawBytes [5]) (ECDSAPrivateKeyImportOpts False) ()
             = (Inr \<lparr>SKI = [5], Private = True\<rparr>, ())"
    by (simp_all add: demo_defs)
  from ImportBCCSPKeyFromPEM_rsa_rejected [OF r1, of "[6]" "Some demo_csp" False "[]", THEN conjunct1] r2
  have A: "ImportBCCSPKeyFromPEM demo_env ''rsa-key.pem'' (Some demo_csp) False ((), []) =
     (Ret (Inl ''Failed to import RSA key from rsa-key.pem; RSA private key import is not supported''),
      ((), [Call_ReadFile ''rsa-key.pem'']))"
    by simp
  from ImportBCCSPKeyFromPEM_rsa_rejected [OF e1, where k = "[5]" and priv = "[5]" and c = demo_csp
      and temporary = False and sk = "\<lparr>SKI = [5], Private = True\<rparr>" and ?w2.0 = "()" and tr = "[]",
      THEN conjunct2] e2 e3 e4
  have B: "ImportBCCSPKeyFromPEM demo_env ''ec-key.pem'' (Some demo_csp) False ((), []) =
     (Ret (Inr \<lparr>SKI = [5], Private = True\<rparr>),
      ((), [Call_ReadFile ''ec-key.pem'', Call_KeyImport (RawBytes [5]) (ECDSAPrivateKeyImportOpts False)]))"
    by simp
  from A B show ?thesis by simp
qed



lemma ImportBCCSPKeyFromPEM_trace:
  "ImportBCCSPKeyFromPEM E keyFile csp temporary \<sigma> = (r, \<sigma>') \<Longrightarrow>
     \<exists>after. snd \<sigma>' = snd \<sigma> @ Call_ReadFile keyFile # after
       \<and> (\<forall>e \<in> set after. \<forall>m p. e \<noteq> Log m \<and> e \<noteq> Call_ReadFile p)"
  by (auto simp: ImportBCCSPKeyFromPEM_def call_def
      split: option.splits prod.splits sum.splits pem_key.splits)

lemma new_local_signer_result:
  "new_local_signer E g ca policy \<sigma> = (out, \<sigma>') \<Longrightarrow>
     snd \<sigma>' = snd \<sigma> @ [Call_local_NewSigner] \<and> (\<forall>err. out \<noteq> Ret (Inl (keyfile_error keyFile err)))"
  by (auto simp: new_local_signer_def emit_def keyfile_error_def WithMessage_def split: sum.splits)

lemma new_local_signer_eq:
  "new_local_signer E g ca policy \<sigma> =
     (case local_NewSigner E g ca (DefaultSigAlgo E g) policy of
        Inl err \<Rightarrow> Ret (Inl (WithMessage err ''Failed to create new signer''))
      | Inr signer \<Rightarrow> Ret (Inr signer),
      emit Call_local_NewSigner \<sigma>)"
  by (simp add: new_local_signer_def split: sum.split)

lemma keyfile_error_text:
  "keyfile_error keyFile err =
     ''Could not find the private key in BCCSP keystore nor in keyfile '' @ [CHR 0x27] @ keyFile
     @ [CHR 0x27] @ '': '' @ err"
  by (simp add: keyfile_error_def WithMessage_def squote_def)

text \<open>
  C4, as amended. In \<^verbatim>\<open>BccspBackedSigner\<close> the primary step is
  \<^verbatim>\<open>GetSignerFromCertFile\<close>. After that step, the fallback is announced in the log and
  the key file is read exactly once when the primary step returned an error, and not at
  all when it returned a key and a signer. When the primary step succeeded, the result is
  what \<^verbatim>\<open>local.NewSigner\<close> gives for its signer and certificate, a signer or the error
  "Failed to create new signer". When it failed, the result follows the one import from
  the key file: its panic; the error that names the key file when the import failed; the
  error "Failed initializing CryptoSigner" when no signer can be built from the imported
  key; and otherwise what \<^verbatim>\<open>local.NewSigner\<close> gives for the signer built from the
  imported key. The error that names the key file is the result exactly when the primary
  step and the import both failed.
\<close>

theorem BccspBackedSigner_fallback:
  assumes "GetSignerFromCertFile E caFile csp \<sigma> = (primary, \<sigma>1)"
    and "BccspBackedSigner E caFile keyFile policy csp \<sigma> = (out, \<sigma>')"
    and "ImportBCCSPKeyFromPEM E keyFile csp False (emit (Log fallback_log) \<sigma>1) = (imp, \<sigma>2)"
  shows "(\<exists>after. snd \<sigma>' = snd \<sigma>1 @ after
            \<and> count_list after (Log fallback_log) = (if isl primary then 1 else 0)
            \<and> count_list after (Call_ReadFile keyFile) = (if isl primary then 1 else 0))
       \<and> (\<forall>key cspSigner parsedCa. primary = Inr (key, cspSigner, parsedCa) \<longrightarrow>
            out = (case local_NewSigner E cspSigner (Some parsedCa) (DefaultSigAlgo E cspSigner) policy of
                     Inl err \<Rightarrow> Ret (Inl (WithMessage err ''Failed to create new signer''))
                   | Inr signer \<Rightarrow> Ret (Inr signer))
            \<and> \<sigma>' = emit Call_local_NewSigner \<sigma>1)
       \<and> (\<forall>err0 parsedCa. primary = Inl (err0, parsedCa) \<longrightarrow>
            (\<forall>p. imp = Panic p \<longrightarrow> out = Panic p \<and> \<sigma>' = \<sigma>2)
            \<and> (\<forall>err. imp = Ret (Inl err) \<longrightarrow> out = Ret (Inl (keyfile_error keyFile err)) \<and> \<sigma>' = \<sigma>2)
            \<and> (\<forall>key err. imp = Ret (Inr key) \<and> cspsigner_New E csp key = Inl err \<longrightarrow>
                  out = Ret (Inl (WithMessage err ''Failed initializing CryptoSigner''))
                  \<and> \<sigma>' = emit (Call_cspsigner_New key) \<sigma>2)
            \<and> (\<forall>key signer. imp = Ret (Inr key) \<and> cspsigner_New E csp key = Inr signer \<longrightarrow>
                  out = (case local_NewSigner E signer parsedCa (DefaultSigAlgo E signer) policy of
                           Inl err \<Rightarrow> Ret (Inl (WithMessage err ''Failed to create new signer''))
                         | Inr l \<Rightarrow> Ret (Inr l))
                  \<and> \<sigma>' = emit Call_local_NewSigner (emit (Call_cspsigner_New key) \<sigma>2)))
       \<and> ((\<exists>err. out = Ret (Inl (keyfile_error keyFile err))) = (isl primary \<and> (\<exists>err. imp = Ret (Inl err))))"
proof (cases primary)
  case (Inr ok)
  obtain key cspSigner parsedCa where ok: "ok = (key, cspSigner, parsedCa)" by (cases ok)
  from assms(1,2) Inr ok have run: "new_local_signer E cspSigner (Some parsedCa) policy \<sigma>1 = (out, \<sigma>')"
    by (simp add: BccspBackedSigner_def)
  from new_local_signer_result [OF run, of keyFile]
  have a: "snd \<sigma>' = snd \<sigma>1 @ [Call_local_NewSigner]" "\<forall>err. out \<noteq> Ret (Inl (keyfile_error keyFile err))"
    by simp_all
  from run have b: "out = (case local_NewSigner E cspSigner (Some parsedCa) (DefaultSigAlgo E cspSigner) policy of
                     Inl err \<Rightarrow> Ret (Inl (WithMessage err ''Failed to create new signer''))
                   | Inr signer \<Rightarrow> Ret (Inr signer))" "\<sigma>' = emit Call_local_NewSigner \<sigma>1"
    by (simp_all add: new_local_signer_eq)
  from a b Inr ok show ?thesis by simp
next
  case (Inl failed)
  obtain err0 parsedCa where failed: "failed = (err0, parsedCa)" by (cases failed)
  note imp = assms(3)
  from ImportBCCSPKeyFromPEM_trace [OF imp] obtain rest where
    rest: "snd \<sigma>2 = snd \<sigma>1 @ Log fallback_log # Call_ReadFile keyFile # rest"
      "\<forall>e \<in> set rest. \<forall>m p. e \<noteq> Log m \<and> e \<noteq> Call_ReadFile p"
    by (auto simp: emit_def)
  then have cnt: "count_list rest (Log fallback_log) = 0" "count_list rest (Call_ReadFile keyFile) = 0"
    by (auto simp: count_list_0_iff)
  show ?thesis
  proof (cases imp)
    case (Panic p)
    with assms(1,2) Inl failed imp have "out = Panic p" "\<sigma>' = \<sigma>2"
      by (simp_all add: BccspBackedSigner_def)
    with rest cnt Inl failed Panic show ?thesis by simp
  next
    case (Ret res)
    show ?thesis
    proof (cases res)
      case (Inl err)
      with assms(1,2) \<open>primary = Inl failed\<close> failed imp Ret
      have "out = Ret (Inl (keyfile_error keyFile err))" "\<sigma>' = \<sigma>2"
        by (simp_all add: BccspBackedSigner_def)
      with rest cnt \<open>primary = Inl failed\<close> failed Ret Inl show ?thesis by auto
    next
      case (Inr key)
      show ?thesis
      proof (cases "cspsigner_New E csp key")
        case (Inl err)
        with assms(1,2) \<open>primary = Inl failed\<close> failed imp Ret Inr
        have "out = Ret (Inl (WithMessage err ''Failed initializing CryptoSigner''))"
          "\<sigma>' = emit (Call_cspsigner_New key) \<sigma>2"
          by (simp_all add: BccspBackedSigner_def)
        with rest cnt \<open>primary = Inl failed\<close> failed Ret Inr Inl show ?thesis
          by (simp add: emit_def keyfile_error_def WithMessage_def)
      next
        case (Inr signer)
        with assms(1,2) \<open>primary = Inl failed\<close> failed imp Ret \<open>res = Inr key\<close>
        have run: "new_local_signer E signer parsedCa policy (emit (Call_cspsigner_New key) \<sigma>2) = (out, \<sigma>')"
          by (simp add: BccspBackedSigner_def)
        from new_local_signer_result [OF run, of keyFile]
        have a: "snd \<sigma>' = snd (emit (Call_cspsigner_New key) \<sigma>2) @ [Call_local_NewSigner]"
          "\<forall>err. out \<noteq> Ret (Inl (keyfile_error keyFile err))"
          by simp_all
        from run have b: "out = (case local_NewSigner E signer parsedCa (DefaultSigAlgo E signer) policy of
                           Inl err \<Rightarrow> Ret (Inl (WithMessage err ''Failed to create new signer''))
                         | Inr l \<Rightarrow> Ret (Inr l))"
          "\<sigma>' = emit Call_local_NewSigner (emit (Call_cspsigner_New key) \<sigma>2)"
          by (simp_all add: new_local_signer_eq)
        from a b rest cnt \<open>primary = Inl failed\<close> failed Ret \<open>res = Inr key\<close> Inr
        show ?thesis by (simp add: emit_def)
      qed
    qed
  qed
qed


theorem BccspBackedSigner_fallback_witness:
  "GetSignerFromCertFile demo_env ''plain.pem'' (Some demo_csp) ((), []) =
     (Inl (''Could not find matching private key for SKI: key not found'', Some \<lparr>Raw = [4], Extensions = []\<rparr>),
      ((), [Call_ReadFile ''plain.pem'',
            Call_KeyImport (RawCertificate \<lparr>Raw = [4], Extensions = []\<rparr>) (X509PublicKeyImportOpts True),
            Call_GetKey [4]]))
   \<and> BccspBackedSigner demo_env ''plain.pem'' ''rsa-key.pem'' () (Some demo_csp) ((), []) =
     (Ret (Inl (''Could not find the private key in BCCSP keystore nor in keyfile 'rsa-key.pem': ''
                @ ''Failed to import RSA key from rsa-key.pem; RSA private key import is not supported'')),
      ((), [Call_ReadFile ''plain.pem'',
            Call_KeyImport (RawCertificate \<lparr>Raw = [4], Extensions = []\<rparr>) (X509PublicKeyImportOpts True),
            Call_GetKey [4], Log fallback_log, Call_ReadFile ''rsa-key.pem'']))
   \<and> (\<exists>after. [Call_ReadFile ''plain.pem'',
            Call_KeyImport (RawCertificate \<lparr>Raw = [4], Extensions = []\<rparr>) (X509PublicKeyImportOpts True),
            Call_GetKey [4], Log fallback_log, Call_ReadFile ''rsa-key.pem'']
          = [Call_ReadFile ''plain.pem'',
            Call_KeyImport (RawCertificate \<lparr>Raw = [4], Extensions = []\<rparr>) (X509PublicKeyImportOpts True),
            Call_GetKey [4]] @ after
          \<and> count_list after (Log fallback_log) = 1
          \<and> count_list after (Call_ReadFile ''rsa-key.pem'') = 1)
   \<and> BccspBackedSigner demo_env ''plain.pem'' ''ec-key.pem'' () (Some demo_csp) ((), []) =
     (Ret (Inr \<lparr>SKI = [5], Private = True\<rparr>),
      ((), [Call_ReadFile ''plain.pem'',
            Call_KeyImport (RawCertificate \<lparr>Raw = [4], Extensions = []\<rparr>) (X509PublicKeyImportOpts True),
            Call_GetKey [4], Log fallback_log, Call_ReadFile ''ec-key.pem'',
            Call_KeyImport (RawBytes [5]) (ECDSAPrivateKeyImportOpts False),
            Call_cspsigner_New \<lparr>SKI = [5], Private = True\<rparr>, Call_local_NewSigner]))
   \<and> BccspBackedSigner demo_env ''cert.pem'' ''rsa-key.pem'' () (Some demo_csp) ((), []) =
     (Ret (Inr \<lparr>SKI = [1], Private = True\<rparr>),
      ((), [Call_ReadFile ''cert.pem'',
            Call_KeyImport (RawCertificate \<lparr>Raw = [1], Extensions = [demo_params_ext, demo_attr_ext]\<rparr>)
              (X509PublicKeyImportOpts True),
            Call_GetKey [1], Call_cspsigner_New \<lparr>SKI = [1], Private = True\<rparr>, Call_local_NewSigner]))"
proof -
  let ?ca = "\<lparr>Raw = [4], Extensions = []\<rparr>"
  let ?tr1 = "[Call_ReadFile ''plain.pem'',
            Call_KeyImport (RawCertificate ?ca) (X509PublicKeyImportOpts True),
            Call_GetKey [4]]"
  let ?c1 = "\<lparr>Raw = [1], Extensions = [demo_params_ext, demo_attr_ext]\<rparr>"
  let ?tr2 = "[Call_ReadFile ''cert.pem'', Call_KeyImport (RawCertificate ?c1) (X509PublicKeyImportOpts True),
            Call_GetKey [1], Call_cspsigner_New \<lparr>SKI = [1], Private = True\<rparr>]"
  have h1: "GetSignerFromCertFile demo_env ''plain.pem'' (Some demo_csp) ((), []) =
     (Inl (''Could not find matching private key for SKI: key not found'', Some ?ca), ((), ?tr1))"
    by (simp add: GetSignerFromCertFile_def GetSignerFromCert_def call_def Let_def WithMessage_def demo_defs)
  have imp: "ImportBCCSPKeyFromPEM demo_env ''rsa-key.pem'' (Some demo_csp) False
               (emit (Log fallback_log) ((), ?tr1)) =
     (Ret (Inl ''Failed to import RSA key from rsa-key.pem; RSA private key import is not supported''),
      ((), ?tr1 @ [Log fallback_log, Call_ReadFile ''rsa-key.pem'']))"
    by (simp add: ImportBCCSPKeyFromPEM_def call_def emit_def demo_defs)
  obtain out \<sigma>' where h2: "BccspBackedSigner demo_env ''plain.pem'' ''rsa-key.pem'' () (Some demo_csp) ((), [])
                            = (out, \<sigma>')"
    by (cases "BccspBackedSigner demo_env ''plain.pem'' ''rsa-key.pem'' () (Some demo_csp) ((), [])")
  note rsa = BccspBackedSigner_fallback [OF h1 h2 imp]
  from rsa [THEN conjunct2, THEN conjunct2, THEN conjunct1]
  have "out = Ret (Inl (keyfile_error ''rsa-key.pem''
                 ''Failed to import RSA key from rsa-key.pem; RSA private key import is not supported''))"
    "\<sigma>' = ((), ?tr1 @ [Log fallback_log, Call_ReadFile ''rsa-key.pem''])"
    by simp_all
  with h2 have A: "BccspBackedSigner demo_env ''plain.pem'' ''rsa-key.pem'' () (Some demo_csp) ((), []) =
     (Ret (Inl (''Could not find the private key in BCCSP keystore nor in keyfile 'rsa-key.pem': ''
                @ ''Failed to import RSA key from rsa-key.pem; RSA private key import is not supported'')),
      ((), ?tr1 @ [Log fallback_log, Call_ReadFile ''rsa-key.pem'']))"
    by (simp add: keyfile_error_def WithMessage_def squote_def)
  from rsa [THEN conjunct1] \<open>\<sigma>' = ((), ?tr1 @ [Log fallback_log, Call_ReadFile ''rsa-key.pem''])\<close>
  have B: "\<exists>after. ?tr1 @ [Log fallback_log, Call_ReadFile ''rsa-key.pem''] = ?tr1 @ after
          \<and> count_list after (Log fallback_log) = 1
          \<and> count_list after (Call_ReadFile ''rsa-key.pem'') = 1"
    by simp
  have imp2: "ImportBCCSPKeyFromPEM demo_env ''ec-key.pem'' (Some demo_csp) False
               (emit (Log fallback_log) ((), ?tr1)) =
     (Ret (Inr \<lparr>SKI = [5], Private = True\<rparr>),
      ((), ?tr1 @ [Log fallback_log, Call_ReadFile ''ec-key.pem'',
                   Call_KeyImport (RawBytes [5]) (ECDSAPrivateKeyImportOpts False)]))"
    by (simp add: ImportBCCSPKeyFromPEM_def call_def emit_def demo_defs)
  obtain out2 \<sigma>2' where h3: "BccspBackedSigner demo_env ''plain.pem'' ''ec-key.pem'' () (Some demo_csp) ((), [])
                            = (out2, \<sigma>2')"
    by (cases "BccspBackedSigner demo_env ''plain.pem'' ''ec-key.pem'' () (Some demo_csp) ((), [])")
  have sgn: "cspsigner_New demo_env (Some demo_csp) \<lparr>SKI = [5], Private = True\<rparr> = Inr \<lparr>SKI = [5], Private = True\<rparr>"
    by (simp add: demo_env_def)
  from BccspBackedSigner_fallback [OF h1 h3 imp2, THEN conjunct2, THEN conjunct2, THEN conjunct1] sgn
  have "out2 = Ret (Inr \<lparr>SKI = [5], Private = True\<rparr>)"
    "\<sigma>2' = ((), ?tr1 @ [Log fallback_log, Call_ReadFile ''ec-key.pem'',
                   Call_KeyImport (RawBytes [5]) (ECDSAPrivateKeyImportOpts False),
                   Call_cspsigner_New \<lparr>SKI = [5], Private = True\<rparr>, Call_local_NewSigner])"
    by (simp_all add: emit_def) (simp_all add: demo_env_def)
  with h3 have C: "BccspBackedSigner demo_env ''plain.pem'' ''ec-key.pem'' () (Some demo_csp) ((), []) =
     (Ret (Inr \<lparr>SKI = [5], Private = True\<rparr>),
      ((), ?tr1 @ [Log fallback_log, Call_ReadFile ''ec-key.pem'',
            Call_KeyImport (RawBytes [5]) (ECDSAPrivateKeyImportOpts False),
            Call_cspsigner_New \<lparr>SKI = [5], Private = True\<rparr>, Call_local_NewSigner]))"
    by simp
  have D: "BccspBackedSigner demo_env ''cert.pem'' ''rsa-key.pem'' () (Some demo_csp) ((), []) =
     (Ret (Inr \<lparr>SKI = [1], Private = True\<rparr>), ((), ?tr2 @ [Call_local_NewSigner]))"
    by (simp add: BccspBackedSigner_def GetSignerFromCertFile_def GetSignerFromCert_def call_def emit_def
        Let_def new_local_signer_def demo_env_def demo_csp_def demo_read_def demo_parse_def)
  from h1 A B C D show ?thesis by simp
qed

text \<open>
  The claim C4 as it is stated fails in four runs. With a signing policy that
  \<^verbatim>\<open>local.NewSigner\<close> refuses, the operation returns an error although the primary step
  succeeded and no fallback was attempted, and it returns an error although the fallback
  import succeeded. With a key store that returns the private key and a
  \<^verbatim>\<open>cspsigner.New\<close> that fails on it, the fallback is attempted although the query
  produced the key. With a certificate file that cannot be read, the fallback is
  attempted although the key store was never asked.
\<close>

theorem BccspBackedSigner_fallback_counterexample:
  "BccspBackedSigner (demo_env\<lparr>local_NewSigner := \<lambda>signer ca algo policy. Inl ''invalid policy''\<rparr>)
     ''cert.pem'' ''ec-key.pem'' () (Some demo_csp) ((), []) =
     (Ret (Inl ''Failed to create new signer: invalid policy''),
      ((), [Call_ReadFile ''cert.pem'',
            Call_KeyImport (RawCertificate \<lparr>Raw = [1], Extensions = [demo_params_ext, demo_attr_ext]\<rparr>)
              (X509PublicKeyImportOpts True),
            Call_GetKey [1], Call_cspsigner_New \<lparr>SKI = [1], Private = True\<rparr>, Call_local_NewSigner]))
   \<and> BccspBackedSigner (demo_env\<lparr>local_NewSigner := \<lambda>signer ca algo policy. Inl ''invalid policy''\<rparr>)
     ''plain.pem'' ''ec-key.pem'' () (Some demo_csp) ((), []) =
     (Ret (Inl ''Failed to create new signer: invalid policy''),
      ((), [Call_ReadFile ''plain.pem'',
            Call_KeyImport (RawCertificate \<lparr>Raw = [4], Extensions = []\<rparr>) (X509PublicKeyImportOpts True),
            Call_GetKey [4], Log fallback_log, Call_ReadFile ''ec-key.pem'',
            Call_KeyImport (RawBytes [5]) (ECDSAPrivateKeyImportOpts False),
            Call_cspsigner_New \<lparr>SKI = [5], Private = True\<rparr>, Call_local_NewSigner]))
   \<and> BccspBackedSigner
       (demo_env\<lparr>cspsigner_New := \<lambda>csp key. if SKI key = [1] then Inl ''unsupported key'' else Inr key\<rparr>)
     ''cert.pem'' ''ec-key.pem'' () (Some demo_csp) ((), []) =
     (Ret (Inr \<lparr>SKI = [5], Private = True\<rparr>),
      ((), [Call_ReadFile ''cert.pem'',
            Call_KeyImport (RawCertificate \<lparr>Raw = [1], Extensions = [demo_params_ext, demo_attr_ext]\<rparr>)
              (X509PublicKeyImportOpts True),
            Call_GetKey [1], Call_cspsigner_New \<lparr>SKI = [1], Private = True\<rparr>,
            Log fallback_log, Call_ReadFile ''ec-key.pem'',
            Call_KeyImport (RawBytes [5]) (ECDSAPrivateKeyImportOpts False),
            Call_cspsigner_New \<lparr>SKI = [5], Private = True\<rparr>, Call_local_NewSigner]))
   \<and> BccspBackedSigner demo_env ''missing.pem'' ''ec-key.pem'' () (Some demo_csp) ((), []) =
     (Ret (Inr \<lparr>SKI = [5], Private = True\<rparr>),
      ((), [Call_ReadFile ''missing.pem'', Log fallback_log, Call_ReadFile ''ec-key.pem'',
            Call_KeyImport (RawBytes [5]) (ECDSAPrivateKeyImportOpts False),
            Call_cspsigner_New \<lparr>SKI = [5], Private = True\<rparr>, Call_local_NewSigner]))"
proof -
  note defs = BccspBackedSigner_def GetSignerFromCertFile_def GetSignerFromCert_def
    ImportBCCSPKeyFromPEM_def call_def emit_def Let_def new_local_signer_def WithMessage_def
    demo_env_def demo_csp_def demo_read_def demo_parse_def demo_pem_key_def demo_cpabe_ski_def
  let ?E1 = "demo_env\<lparr>local_NewSigner := \<lambda>signer ca algo policy. Inl ''invalid policy''\<rparr>"
  let ?E2 = "demo_env\<lparr>cspsigner_New := \<lambda>csp key. if SKI key = [1] then Inl ''unsupported key'' else Inr key\<rparr>"
  have a: "BccspBackedSigner ?E1 ''cert.pem'' ''ec-key.pem'' () (Some demo_csp) ((), []) =
     (Ret (Inl ''Failed to create new signer: invalid policy''),
      ((), [Call_ReadFile ''cert.pem'',
            Call_KeyImport (RawCertificate \<lparr>Raw = [1], Extensions = [demo_params_ext, demo_attr_ext]\<rparr>)
              (X509PublicKeyImportOpts True),
            Call_GetKey [1], Call_cspsigner_New \<lparr>SKI = [1], Private = True\<rparr>, Call_local_NewSigner]))"
    by (simp add: defs)
  have b: "BccspBackedSigner ?E1 ''plain.pem'' ''ec-key.pem'' () (Some demo_csp) ((), []) =
     (Ret (Inl ''Failed to create new signer: invalid policy''),
      ((), [Call_ReadFile ''plain.pem'',
            Call_KeyImport (RawCertificate \<lparr>Raw = [4], Extensions = []\<rparr>) (X509PublicKeyImportOpts True),
            Call_GetKey [4], Log fallback_log, Call_ReadFile ''ec-key.pem'',
            Call_KeyImport (RawBytes [5]) (ECDSAPrivateKeyImportOpts False),
            Call_cspsigner_New \<lparr>SKI = [5], Private = True\<rparr>, Call_local_NewSigner]))"
    by (simp add: defs)
  have c: "BccspBackedSigner ?E2 ''cert.pem'' ''ec-key.pem'' () (Some demo_csp) ((), []) =
     (Ret (Inr \<lparr>SKI = [5], Private = True\<rparr>),
      ((), [Call_ReadFile ''cert.pem'',
            Call_KeyImport (RawCertificate \<lparr>Raw = [1], Extensions = [demo_params_ext, demo_attr_ext]\<rparr>)
              (X509PublicKeyImportOpts True),
            Call_GetKey [1], Call_cspsigner_New \<lparr>SKI = [1], Private = True\<rparr>,
            Log fallback_log, Call_ReadFile ''ec-key.pem'',
            Call_KeyImport (RawBytes [5]) (ECDSAPrivateKeyImportOpts False),
            Call_cspsigner_New \<lparr>SKI = [5], Private = True\<rparr>, Call_local_NewSigner]))"
    by (simp add: defs)
  have d: "BccspBackedSigner demo_env ''missing.pem'' ''ec-key.pem'' () (Some demo_csp) ((), []) =
     (Ret (Inr \<lparr>SKI = [5], Private = True\<rparr>),
      ((), [Call_ReadFile ''missing.pem'', Log fallback_log, Call_ReadFile ''ec-key.pem'',
            Call_KeyImport (RawBytes [5]) (ECDSAPrivateKeyImportOpts False),
            Call_cspsigner_New \<lparr>SKI = [5], Private = True\<rparr>, Call_local_NewSigner]))"
    by (simp add: defs)
  from a b c d show ?thesis by (simp only: simp_thms)
qed

section \<open>Properties of certificate-chain loading\<close>

lemma decode_blocks_decodes_to:
  "decodes_to decode d blocks \<Longrightarrow>
     decode_blocks decode d (certs, skipped) =
       Some (certs @ map Bytes (filter (\<lambda>b. Type b = ''CERTIFICATE'') blocks),
             skipped @ map Type (filter (\<lambda>b. Type b \<noteq> ''CERTIFICATE'') blocks))"
proof (induction arbitrary: certs skipped rule: decodes_to.induct)
  case (decodes_end decode d rest)
  then show ?case
    by (subst decode_blocks.simps) simp
next
  case (decodes_block decode d b rest bs)
  show ?case
    by (subst decode_blocks.simps) (simp add: decodes_block.hyps decodes_block.IH)
qed

text \<open>A decoder that consumes input whenever it finds a block, as \<^verbatim>\<open>pem.Decode\<close> does,
  lets the loop end on every input.\<close>

lemma decodes_to_total:
  assumes "\<And>d b rest. decode d = (Some b, rest) \<Longrightarrow> length rest < length d"
  shows "\<exists>blocks. decodes_to decode d blocks"
proof (induction d rule: length_induct)
  case (1 d)
  show ?case
  proof (cases "decode d")
    case (Pair blk rest)
    show ?thesis
    proof (cases blk)
      case None
      with Pair have "decodes_to decode d []" by (auto intro: decodes_end)
      then show ?thesis ..
    next
      case (Some b)
      with Pair assms have "length rest < length d" by simp
      with 1 obtain bs where "decodes_to decode rest bs" by blast
      with Pair Some have "decodes_to decode d (b # bs)" by (simp add: decodes_block)
      then show ?thesis ..
    qed
  qed
qed

text \<open>
  C9. When the PEM bundle that \<^verbatim>\<open>LoadX509KeyPair\<close> reads holds no block of type
  "CERTIFICATE": if exactly one block was found and its type ends in "PRIVATE KEY", the
  result is the error saying that a private key was found and the PEM inputs may have been
  switched; if blocks were found and they are not that single private-key block, the result
  is the error that lists the types of the blocks that were skipped. In both cases only
  the certificate file has been read.
\<close>

theorem LoadX509KeyPair_no_certificate:
  assumes "ReadFile E certFile w = (Inr pem, w1)"
    and "decodes_to (pem_Decode E) pem blocks"
    and "\<forall>b \<in> set blocks. Type b \<noteq> ''CERTIFICATE''"
  shows "(\<forall>t. map Type blocks = [t] \<and> HasSuffix t ''PRIVATE KEY'' \<longrightarrow>
            LoadX509KeyPair E certFile keyFile csp (w, tr) =
              Some (Inl (''Failed to find certificate PEM data in file '' @ certFile
                         @ '', but did find a private key; PEM inputs may have been switched''),
                    (w1, tr @ [Call_ReadFile certFile])))
       \<and> (blocks \<noteq> [] \<and> \<not> (\<exists>t. map Type blocks = [t] \<and> HasSuffix t ''PRIVATE KEY'') \<longrightarrow>
            LoadX509KeyPair E certFile keyFile csp (w, tr) =
              Some (Inl (''Failed to find '' @ [CHR 0x22] @ ''CERTIFICATE'' @ [CHR 0x22]
                         @ '' PEM block in file '' @ certFile
                         @ '' after skipping PEM blocks of the following types: ''
                         @ fmt_v_strings (map Type blocks)),
                    (w1, tr @ [Call_ReadFile certFile])))"
proof -
  from assms(3) have f1: "filter (\<lambda>b. Type b = ''CERTIFICATE'') blocks = []"
    and f2: "filter (\<lambda>b. Type b \<noteq> ''CERTIFICATE'') blocks = blocks"
    by (simp_all add: filter_empty_conv filter_id_conv)
  have loop: "decode_blocks (pem_Decode E) pem ([], []) = Some ([], map Type blocks)"
    using decode_blocks_decodes_to [OF assms(2), of "[]" "[]"] by (simp add: f1 f2)
  have run: "LoadX509KeyPair E certFile keyFile csp (w, tr) =
               Some (Inl (no_certificate_error certFile (map Type blocks)), (w1, tr @ [Call_ReadFile certFile]))"
    using assms(1) by (simp add: LoadX509KeyPair_def call_def loop)
  show ?thesis
  proof (intro conjI allI impI)
    fix t assume "map Type blocks = [t] \<and> HasSuffix t ''PRIVATE KEY''"
    then show "LoadX509KeyPair E certFile keyFile csp (w, tr) =
              Some (Inl (''Failed to find certificate PEM data in file '' @ certFile
                         @ '', but did find a private key; PEM inputs may have been switched''),
                    (w1, tr @ [Call_ReadFile certFile]))"
      by (simp add: run no_certificate_error_def)
  next
    assume a: "blocks \<noteq> [] \<and> \<not> (\<exists>t. map Type blocks = [t] \<and> HasSuffix t ''PRIVATE KEY'')"
    then have "\<not> (length (map Type blocks) = 1 \<and> HasSuffix (map Type blocks ! 0) ''PRIVATE KEY'')"
      by (cases blocks) auto
    with a show "LoadX509KeyPair E certFile keyFile csp (w, tr) =
              Some (Inl (''Failed to find '' @ [CHR 0x22] @ ''CERTIFICATE'' @ [CHR 0x22]
                         @ '' PEM block in file '' @ certFile
                         @ '' after skipping PEM blocks of the following types: ''
                         @ fmt_v_strings (map Type blocks)),
                    (w1, tr @ [Call_ReadFile certFile]))"
      by (simp add: run no_certificate_error_def del: length_map)
  qed
qed

theorem LoadX509KeyPair_no_certificate_witness:
  "LoadX509KeyPair demo_env ''swapped.pem'' ''cert.pem'' (Some demo_csp) ((), []) =
     Some (Inl (''Failed to find certificate PEM data in file swapped.pem''
                @ '', but did find a private key; PEM inputs may have been switched''),
           ((), [Call_ReadFile ''swapped.pem'']))
   \<and> LoadX509KeyPair demo_env ''crl-and-key.pem'' ''cert.pem'' (Some demo_csp) ((), []) =
     Some (Inl (''Failed to find '' @ [CHR 0x22] @ ''CERTIFICATE'' @ [CHR 0x22]
                @ '' PEM block in file crl-and-key.pem''
                @ '' after skipping PEM blocks of the following types: [X509 CRL EC PRIVATE KEY]''),
           ((), [Call_ReadFile ''crl-and-key.pem'']))"
proof -
  let ?key = "\<lparr>Type = ''EC PRIVATE KEY'', Bytes = [2]\<rparr>"
  let ?crl = "\<lparr>Type = ''X509 CRL'', Bytes = [3]\<rparr>"
  have a1: "ReadFile demo_env ''swapped.pem'' () = (Inr [2], ())"
    by (simp add: demo_defs)
  have a2: "decodes_to (pem_Decode demo_env) [2] [?key]"
    by (rule decodes_block [where rest = "[]"], simp add: demo_env_def,
        rule decodes_end [where rest = "[]"], simp add: demo_env_def)
  have a3: "\<forall>b \<in> set [?key]. Type b \<noteq> ''CERTIFICATE''"
    by simp
  have a4: "map Type [?key] = [''EC PRIVATE KEY''] \<and> HasSuffix ''EC PRIVATE KEY'' ''PRIVATE KEY''"
    by (simp add: HasSuffix_def)
  have b1: "ReadFile demo_env ''crl-and-key.pem'' () = (Inr [3, 2], ())"
    by (simp add: demo_defs)
  have b2: "decodes_to (pem_Decode demo_env) [3, 2] [?crl, ?key]"
    by (rule decodes_block [where rest = "[2]"], simp add: demo_env_def, rule a2)
  have b3: "\<forall>b \<in> set [?crl, ?key]. Type b \<noteq> ''CERTIFICATE''"
    by simp
  have b4: "[?crl, ?key] \<noteq> [] \<and> \<not> (\<exists>t. map Type [?crl, ?key] = [t] \<and> HasSuffix t ''PRIVATE KEY'')"
    by simp
  from LoadX509KeyPair_no_certificate [OF a1 a2 a3, of "''cert.pem''" "Some demo_csp" "[]", THEN conjunct1] a4
  have A: "LoadX509KeyPair demo_env ''swapped.pem'' ''cert.pem'' (Some demo_csp) ((), []) =
     Some (Inl (''Failed to find certificate PEM data in file swapped.pem''
                @ '', but did find a private key; PEM inputs may have been switched''),
           ((), [Call_ReadFile ''swapped.pem'']))"
    by simp
  from LoadX509KeyPair_no_certificate [OF b1 b2 b3, of "''cert.pem''" "Some demo_csp" "[]", THEN conjunct2] b4
  have B: "LoadX509KeyPair demo_env ''crl-and-key.pem'' ''cert.pem'' (Some demo_csp) ((), []) =
     Some (Inl (''Failed to find '' @ [CHR 0x22] @ ''CERTIFICATE'' @ [CHR 0x22]
                @ '' PEM block in file crl-and-key.pem''
                @ '' after skipping PEM blocks of the following types: [X509 CRL EC PRIVATE KEY]''),
           ((), [Call_ReadFile ''crl-and-key.pem'']))"
    by (simp add: fmt_v_strings_def)
  from A B show ?thesis by simp
qed

section \<open>Properties of the key identifiers\<close>

text \<open>The parameters variant panics on every non-nil content, with the serialization
  error when there is one and with nil when there is none.\<close>

lemma cpabeParams_SKI_panics:
  "cpabe_SKI marshal sha (Params (Some m)) =
     Panic (case marshal m of Inl err \<Rightarrow> Some err | Inr raw \<Rightarrow> None)"
  by (simp add: cpabeParams_SKI_def split: sum.split)

lemma cpabe_SKI_nil:
  "cpabe_SKI marshal sha (MasterKey None) = Ret []"
  "cpabe_SKI marshal sha (PrivateKey_of None) = Ret []"
  "cpabe_SKI marshal sha (Params None) = Ret []"
  by (simp_all add: cpabeMasterKey_SKI_def cpabePrivateKey_SKI_def cpabeParams_SKI_def)

text \<open>
  C1, as amended. \<^verbatim>\<open>SKI()\<close> has no error result. For every key variant with non-nil
  content, when serialization of the content fails \<^verbatim>\<open>SKI()\<close> panics with the
  serialization error. For the master-key and private-key variants, when serialization
  succeeds \<^verbatim>\<open>SKI()\<close> returns the SHA-256 hash of the serialized bytes.
\<close>

theorem cpabe_SKI_outcomes:
  "(marshal m = Inl err \<longrightarrow>
      cpabe_SKI marshal sha (MasterKey (Some m)) = Panic (Some err)
      \<and> cpabe_SKI marshal sha (PrivateKey_of (Some m)) = Panic (Some err)
      \<and> cpabe_SKI marshal sha (Params (Some m)) = Panic (Some err))
   \<and> (marshal m = Inr raw \<longrightarrow>
      cpabe_SKI marshal sha (MasterKey (Some m)) = Ret (sha raw)
      \<and> cpabe_SKI marshal sha (PrivateKey_of (Some m)) = Ret (sha raw))"
  by (simp add: cpabeMasterKey_SKI_def cpabePrivateKey_SKI_def cpabeParams_SKI_def)

theorem cpabe_SKI_outcomes_witness:
  "cpabe_SKI demo_marshal rev (MasterKey (Some [])) = Panic (Some ''proto: required field not set'')
   \<and> cpabe_SKI demo_marshal rev (PrivateKey_of (Some [])) = Panic (Some ''proto: required field not set'')
   \<and> cpabe_SKI demo_marshal rev (Params (Some [])) = Panic (Some ''proto: required field not set'')
   \<and> cpabe_SKI demo_marshal rev (MasterKey (Some [1, 2])) = Ret [2, 1]
   \<and> cpabe_SKI demo_marshal rev (PrivateKey_of (Some [1, 2])) = Ret [2, 1]"
proof -
  have f: "demo_marshal [] = Inl ''proto: required field not set''"
    and s: "demo_marshal [1, 2] = Inr [1, 2]"
    by (simp_all add: demo_marshal_def)
  from cpabe_SKI_outcomes [of demo_marshal "[]" "''proto: required field not set''" rev, THEN conjunct1] f
    cpabe_SKI_outcomes [of demo_marshal "[1, 2]" _ rev "[1, 2]", THEN conjunct2] s
  show ?thesis by simp
qed

text \<open>
  The claim C1 as it is stated fails: a master key whose content does not serialize makes
  \<^verbatim>\<open>SKI()\<close> panic, where the claim has an error returned and no crash; and parameters
  whose content serializes make \<^verbatim>\<open>SKI()\<close> panic with nil, where the claim has the hash
  returned.
\<close>

theorem cpabe_SKI_counterexample:
  "demo_marshal [] = Inl ''proto: required field not set''
   \<and> cpabe_SKI demo_marshal rev (MasterKey (Some [])) = Panic (Some ''proto: required field not set'')
   \<and> demo_marshal [1, 2] = Inr [1, 2]
   \<and> cpabe_SKI demo_marshal rev (Params (Some [1, 2])) = Panic None"
  by (simp add: demo_marshal_def cpabeMasterKey_SKI_def cpabeParams_SKI_def)

end
